theory Spec2Isabelle
  imports Main "HOL-Library.Sublist"
begin

section \<open>Ignition delivery for libvirt machines\<close>

text \<open>
  A shallow embedding of \<^verbatim>\<open>pkg/cloud/libvirt/client/ignition.go\<close> and of the second copy of
  that file kept in the repository (\<^verbatim>\<open>src/unnamed/part_000\<close>), whose \<^verbatim>\<open>injectIgnitionByGuestfish\<close>,
  \<^verbatim>\<open>execCmd\<close> and \<^verbatim>\<open>startCmd\<close> differ. Go strings are byte sequences and are modelled as
  \<^typ>\<open>string\<close>. A Go \<^verbatim>\<open>error\<close> is its message; a run-time panic is a separate outcome.
\<close>

datatype failure = Error string | Panic string

subsection \<open>The pieces of the Go library the code calls\<close>

text \<open>
  \<^verbatim>\<open>strings.Split(s, sep)\<close> for a one-byte separator: the pieces between the occurrences of
  the separator, so always one piece more than there are separators (\<^verbatim>\<open>Split("", ";")\<close> is
  the one-element slice holding the empty string).
\<close>

fun Split :: "string \<Rightarrow> char \<Rightarrow> string list" where
  "Split [] sep = [[]]"
| "Split (c # cs) sep =
     (if c = sep then [] # Split cs sep
      else (case Split cs sep of
              [] \<Rightarrow> [[c]]
            | w # ws \<Rightarrow> (c # w) # ws))"

text \<open>\<^verbatim>\<open>strings.Join(elems, sep)\<close>.\<close>

fun Join :: "string list \<Rightarrow> string \<Rightarrow> string" where
  "Join [] sep = []"
| "Join [x] sep = x"
| "Join (x # y # ys) sep = x @ sep @ Join (y # ys) sep"

text \<open>
  \<^verbatim>\<open>strings.TrimSpace\<close> removes the leading and the trailing white space as Unicode defines
  it (\<^verbatim>\<open>unicode.IsSpace\<close>), reading the bytes as UTF-8. The white-space characters are
  U+0009 to U+000D, U+0020, U+0085, U+00A0, U+1680, U+2000 to U+200A, U+2028, U+2029, U+202F,
  U+205F and U+3000; \<open>spaceEncodings\<close> lists their UTF-8 encodings. A character at the front
  is white space exactly when one of these encodings is an initial part of the string, and
  the last character is white space exactly when one of them ends the string (bytes that
  are no valid encoding count as a character that is not white space).
\<close>

definition spaceEncodings :: "string list" where
  "spaceEncodings =
     [[CHR 0x09], [CHR 0x0A], [CHR 0x0B], [CHR 0x0C], [CHR 0x0D], [CHR 0x20],
      [CHR 0xC2, CHR 0x85], [CHR 0xC2, CHR 0xA0],
      [CHR 0xE1, CHR 0x9A, CHR 0x80],
      [CHR 0xE2, CHR 0x80, CHR 0x80], [CHR 0xE2, CHR 0x80, CHR 0x81], [CHR 0xE2, CHR 0x80, CHR 0x82],
      [CHR 0xE2, CHR 0x80, CHR 0x83], [CHR 0xE2, CHR 0x80, CHR 0x84], [CHR 0xE2, CHR 0x80, CHR 0x85],
      [CHR 0xE2, CHR 0x80, CHR 0x86], [CHR 0xE2, CHR 0x80, CHR 0x87], [CHR 0xE2, CHR 0x80, CHR 0x88],
      [CHR 0xE2, CHR 0x80, CHR 0x89], [CHR 0xE2, CHR 0x80, CHR 0x8A],
      [CHR 0xE2, CHR 0x80, CHR 0xA8], [CHR 0xE2, CHR 0x80, CHR 0xA9], [CHR 0xE2, CHR 0x80, CHR 0xAF],
      [CHR 0xE2, CHR 0x81, CHR 0x9F],
      [CHR 0xE3, CHR 0x80, CHR 0x80]]"

text \<open>The number of bytes of the white-space character at the front of \<open>s\<close>, or 0 when \<open>s\<close>
  does not begin with one of the encodings \<open>es\<close>.\<close>

fun spaceWidth :: "string list \<Rightarrow> string \<Rightarrow> nat" where
  "spaceWidth [] s = 0"
| "spaceWidth (e # es) s = (if prefix e s then length e else spaceWidth es s)"

function trimFront :: "string list \<Rightarrow> string \<Rightarrow> string" where
  "trimFront es s =
     (if spaceWidth es s = 0 then s else trimFront es (drop (spaceWidth es s) s))"
  by pat_completeness auto
termination
proof (relation "measure (\<lambda>(es, s). length s)")
  show "wf (measure (\<lambda>(es, s). length s))" by simp
next
  fix es :: "string list" and s :: string
  assume "spaceWidth es s \<noteq> 0"
  moreover have "spaceWidth es s \<le> length s"
    by (induction es) (auto simp: prefix_length_le)
  ultimately show "((es, drop (spaceWidth es s) s), (es, s)) \<in> measure (\<lambda>(es, s). length s)"
    by simp
qed

declare trimFront.simps [simp del]

definition TrimSpace :: "string \<Rightarrow> string" where
  "TrimSpace s = rev (trimFront (map rev spaceEncodings) (rev (trimFront spaceEncodings s)))"

text \<open>\<^verbatim>\<open>errors.Wrapf(err, msg)\<close>: the message, a colon, the cause.\<close>

definition Wrapf :: "string \<Rightarrow> string \<Rightarrow> string" where
  "Wrapf err msg = msg @ '': '' @ err"

subsection \<open>External processes\<close>

text \<open>
  An \<^verbatim>\<open>exec.Cmd\<close>: the resolved path, the argument vector (whose first entry is the name the
  command was created with) and the environment, \<open>None\<close> for Go's \<^verbatim>\<open>nil\<close> (the child then
  inherits the environment of the calling process).
\<close>

record cmd =
  Path :: string
  Args :: "string list"
  Env :: "string list option"

text \<open>
  What lies outside the program: how a name resolves to a path, and what a launched
  process answers. The answer may depend on everything launched before (the history), since
  the guestfish session is stateful.
\<close>

datatype start_outcome =
    StdoutPipeError string
  | StartError string
  | ReadError string
  | Started string

record os_iface =
  LookPath :: "string \<Rightarrow> string"
  CombinedOutput :: "cmd list \<Rightarrow> cmd \<Rightarrow> string \<times> string option"
  Start :: "cmd list \<Rightarrow> cmd \<Rightarrow> start_outcome"

text \<open>
  The state of the provisioning process that the session can touch: the commands it has
  launched so far, oldest first, and its own environment variables.
\<close>

record proc_st =
  trace :: "cmd list"
  environ :: "string \<rightharpoonup> string"

definition Command :: "os_iface \<Rightarrow> string \<Rightarrow> string list \<Rightarrow> cmd" where
  "Command os name args = \<lparr>Path = LookPath os name, Args = name # args, Env = None\<rparr>"

text \<open>\<^verbatim>\<open>genCmd\<close> of ignition.go. A \<^verbatim>\<open>nil\<close> slice and an empty one are both \<open>[]\<close>: the code
  treats them alike.\<close>

definition genCmd :: "os_iface \<Rightarrow> bool \<Rightarrow> string list \<Rightarrow> string list \<Rightarrow> cmd" where
  "genCmd os useRoot env args =
     (let executable = ''guestfish'';
          newArgs = (if useRoot then [''--preserve-env'', executable] @ args else args);
          executable = (if useRoot then ''sudo'' else executable);
          c = Command os executable newArgs
      in if length env > 0 then c\<lparr>Env := Some env\<rparr> else c)"

definition cmdline :: "string \<Rightarrow> string list \<Rightarrow> string" where
  "cmdline p as = p @ '' '' @ Join as '' ''"

text \<open>The error of \<^verbatim>\<open>execCmd\<close>: the cause wrapped with the command line, which is the
  path followed by the joined argument vector.\<close>

definition runError :: "string \<Rightarrow> string list \<Rightarrow> string \<Rightarrow> string" where
  "runError p as err =
     Wrapf err (''error running command '' @ [CHR 0x27] @ cmdline p as @ [CHR 0x27])"

text \<open>\<^verbatim>\<open>execCmd\<close> of ignition.go: run to completion, hand back the combined output and the
  wrapped error, if any.\<close>

definition execCmd ::
  "os_iface \<Rightarrow> bool \<Rightarrow> string list \<Rightarrow> string list \<Rightarrow> proc_st \<Rightarrow> proc_st \<times> string \<times> string option" where
  "execCmd os useRoot env args st =
     (let c = genCmd os useRoot env args;
          (cmdOut, err) = CombinedOutput os (trace st) c;
          st' = st\<lparr>trace := trace st @ [c]\<rparr>
      in (st', cmdOut,
          map_option (runError (Path c) (Args c)) err))"

text \<open>\<^verbatim>\<open>startCmd\<close> of ignition.go: start the process and read its standard output. When the
  pipe cannot be made the process is never launched.\<close>

definition startCmd ::
  "os_iface \<Rightarrow> bool \<Rightarrow> string list \<Rightarrow> string list \<Rightarrow> proc_st \<Rightarrow> proc_st \<times> string \<times> string option" where
  "startCmd os useRoot env args st =
     (let c = genCmd os useRoot env args;
          st' = st\<lparr>trace := trace st @ [c]\<rparr>
      in case Start os (trace st) c of
           StdoutPipeError e \<Rightarrow>
             (st, [], Some (Wrapf e (''error getting stdout pipe for command '' @ [CHR 0x27] @ cmdline (Path c) (Args c) @ [CHR 0x27])))
         | StartError e \<Rightarrow>
             (st', [], Some (Wrapf e (''error starting command '' @ [CHR 0x27] @ cmdline (Path c) (Args c) @ [CHR 0x27])))
         | ReadError e \<Rightarrow> (st', [], Some e)
         | Started outMsg \<Rightarrow> (st', outMsg, None))"

text \<open>The same two functions in part_000: no privilege escalation, no environment argument,
  and the error names the bare executable.\<close>

definition execCmd_part000 ::
  "os_iface \<Rightarrow> string list \<Rightarrow> proc_st \<Rightarrow> proc_st \<times> string \<times> string option" where
  "execCmd_part000 os args st =
     (let executable = ''guestfish'';
          c = Command os executable args;
          (cmdOut, err) = CombinedOutput os (trace st) c;
          st' = st\<lparr>trace := trace st @ [c]\<rparr>
      in (st', cmdOut,
          map_option (runError executable args) err))"

definition startCmd_part000 ::
  "os_iface \<Rightarrow> string list \<Rightarrow> proc_st \<Rightarrow> proc_st \<times> string \<times> string option" where
  "startCmd_part000 os args st =
     (let executable = ''guestfish'';
          c = Command os executable args;
          st' = st\<lparr>trace := trace st @ [c]\<rparr>
      in case Start os (trace st) c of
           StdoutPipeError e \<Rightarrow>
             (st, [], Some (Wrapf e (''error getting stdout pipe for command '' @ [CHR 0x27] @ cmdline executable args @ [CHR 0x27])))
         | StartError e \<Rightarrow>
             (st', [], Some (Wrapf e (''error starting command '' @ [CHR 0x27] @ cmdline executable args @ [CHR 0x27])))
         | ReadError e \<Rightarrow> (st', [], Some e)
         | Started outMsg \<Rightarrow> (st', outMsg, None))"

text \<open>\<^verbatim>\<open>os.Setenv\<close>: refused (and the refusal ignored by the caller) for an empty key and for
  a key or value the system call cannot take.\<close>

definition Setenv :: "string \<Rightarrow> string \<Rightarrow> proc_st \<Rightarrow> proc_st" where
  "Setenv k v st =
     (if k = [] \<or> CHR ''='' \<in> set k \<or> CHR 0x00 \<in> set k \<or> CHR 0x00 \<in> set v then st
      else st\<lparr>environ := (environ st)(k \<mapsto> v)\<rparr>)"

subsection \<open>The domain definition\<close>

text \<open>
  The fields of libvirt-go-xml's \<^verbatim>\<open>Domain\<close> that the code reads or writes. A Go pointer
  is an \<open>option\<close>, \<open>None\<close> for \<^verbatim>\<open>nil\<close>.
\<close>

record DomainDiskSourceFile =
  File :: string

record DomainDiskSource =
  SourceFile :: "DomainDiskSourceFile option"

record DomainDisk =
  Source :: "DomainDiskSource option"

record DomainDeviceList =
  Disks :: "DomainDisk list"

record DomainQEMUCommandlineArg =
  Value :: string

record DomainQEMUCommandlineEnv =
  EnvName :: string
  EnvValue :: string

record DomainQEMUCommandline =
  QArgs :: "DomainQEMUCommandlineArg list"
  QEnvs :: "DomainQEMUCommandlineEnv list"

record Domain =
  Devices :: "DomainDeviceList option"
  QEMUCommandline :: "DomainQEMUCommandline option"

text \<open>The expression \<^verbatim>\<open>domainDef.Devices.Disks[0].Source.File.File\<close>, with the panics of
  each dereference and of the index.\<close>

definition firstDiskFile :: "Domain \<Rightarrow> failure + string" where
  "firstDiskFile domainDef =
     (case Devices domainDef of
        None \<Rightarrow> Inl (Panic ''invalid memory address or nil pointer dereference'')
      | Some devs \<Rightarrow>
          (case Disks devs of
             [] \<Rightarrow> Inl (Panic ''index out of range [0] with length 0'')
           | disk # _ \<Rightarrow>
               (case Source disk of
                  None \<Rightarrow> Inl (Panic ''invalid memory address or nil pointer dereference'')
                | Some src \<Rightarrow>
                    (case SourceFile src of
                       None \<Rightarrow> Inl (Panic ''invalid memory address or nil pointer dereference'')
                     | Some f \<Rightarrow> Inr (File f)))))"

subsection \<open>The guestfish session\<close>

text \<open>\<^verbatim>\<open>_, err = execCmd(...); if err != nil { return err }\<close> followed by the rest.\<close>

definition orReturn ::
  "proc_st \<times> string \<times> string option \<Rightarrow> (proc_st \<Rightarrow> string \<Rightarrow> proc_st \<times> failure option)
     \<Rightarrow> proc_st \<times> failure option" where
  "orReturn r rest =
     (case r of (st, output, err) \<Rightarrow>
        (case err of Some e \<Rightarrow> (st, Some (Error e)) | None \<Rightarrow> rest st output))"

text \<open>\<^verbatim>\<open>injectIgnitionByGuestfish\<close> of ignition.go.\<close>

definition injectIgnitionByGuestfish ::
  "os_iface \<Rightarrow> Domain \<Rightarrow> string \<Rightarrow> proc_st \<Rightarrow> proc_st \<times> failure option" where
  "injectIgnitionByGuestfish os domainDef ignitionFile st0 =
     (case firstDiskFile domainDef of
        Inl p \<Rightarrow> (st0, Some p)
      | Inr disk \<Rightarrow>
     orReturn (startCmd os True [] [''--listen'', ''-a'', disk] st0) (\<lambda>st output.
       let strArray = Split output CHR '';'' in
       if length strArray \<noteq> 2
       then (st, Some (Error (''Invalid output when starting guestfish: '' @ output)))
       else
       let strArray1 = Split (strArray ! 0) CHR ''='' in
       if length strArray1 \<noteq> 2
       then (st, Some (Error (''failed to get the guestfish PID from '' @ output)))
       else
       let env = [strArray ! 0] in
     orReturn (execCmd os True env [''--remote'', ''--'', ''run''] st) (\<lambda>st _.
     orReturn (execCmd os True env [''--remote'', ''--'', ''findfs-label'', ''boot''] st) (\<lambda>st output.
       let bootDisk = TrimSpace output in
       if length bootDisk = 0
       then (st, Some (Error ''failed to get the boot filesystem''))
       else
     orReturn (execCmd os True env [''--remote'', ''--'', ''mount'', bootDisk, ''/''] st) (\<lambda>st _.
     orReturn (execCmd os True env [''--remote'', ''--'', ''upload'', ignitionFile, ''/ignition/config.ign''] st) (\<lambda>st _.
     orReturn (execCmd os True env [''--remote'', ''--'', ''umount-all''] st) (\<lambda>st _.
     orReturn (execCmd os True env [''--remote'', ''--'', ''exit''] st) (\<lambda>st _.
       (st, None)))))))))"

text \<open>
  The loop of part_000 over the lines of the \<^verbatim>\<open>list-filesystems\<close> output.
  \<^verbatim>\<open>buf.ReadString('\n')\<close> hands back a line with its line feed, or reports the end of the
  buffer (also when bytes without a final line feed are left), which ends the loop with
  \<^verbatim>\<open>bootDisk\<close> still empty. The first argument collects the bytes of the line being read.
\<close>

fun scanFilesystems :: "string \<Rightarrow> string \<Rightarrow> failure + string" where
  "scanFilesystems line [] = Inr []"
| "scanFilesystems line (c # cs) =
     (if c = CHR 0x0A then
        (let line = line @ [c];
             diskAndFormat = Split line CHR '':''
         in if length diskAndFormat \<noteq> 2 then Inl (Error (''invalid filesystem format: '' @ line))
            else if diskAndFormat ! 1 = ''ext4'' then Inr (diskAndFormat ! 0)
            else scanFilesystems [] cs)
      else scanFilesystems (line @ [c]) cs)"

text \<open>\<^verbatim>\<open>injectIgnitionByGuestfish\<close> of part_000. Its second length test looks at
  \<^verbatim>\<open>strArray\<close> again, so it never fires; \<^verbatim>\<open>strArray1[1]\<close> panics when the first segment
  has no \<^verbatim>\<open>=\<close>.\<close>

definition injectIgnitionByGuestfish_part000 ::
  "os_iface \<Rightarrow> Domain \<Rightarrow> string \<Rightarrow> proc_st \<Rightarrow> proc_st \<times> failure option" where
  "injectIgnitionByGuestfish_part000 os domainDef ignitionFile st0 =
     (case firstDiskFile domainDef of
        Inl p \<Rightarrow> (st0, Some p)
      | Inr disk \<Rightarrow>
     orReturn (startCmd_part000 os [''--listen'', ''-a'', disk] st0) (\<lambda>st output.
       let strArray = Split output CHR '';'' in
       if length strArray \<noteq> 2
       then (st, Some (Error (''Invalid output when starting guestfish: '' @ output)))
       else
       let strArray1 = Split (strArray ! 0) CHR ''='' in
       if length strArray \<noteq> 2
       then (st, Some (Error (''failed to get the guestfish PID from '' @ output)))
       else
       if length strArray1 < 2
       then (st, Some (Panic ''index out of range [1] with length 1''))
       else
       let st = Setenv (strArray1 ! 0) (strArray1 ! 1) st in
     orReturn (execCmd_part000 os [''--remote'', ''--'', ''run''] st) (\<lambda>st _.
     orReturn (execCmd_part000 os [''--remote'', ''--'', ''list-filesystems''] st) (\<lambda>st output.
       case scanFilesystems [] output of
         Inl e \<Rightarrow> (st, Some e)
       | Inr bootDisk \<Rightarrow>
     orReturn (execCmd_part000 os [''--remote'', ''--'', ''mount'', bootDisk, ''/''] st) (\<lambda>st _.
     orReturn (execCmd_part000 os [''--remote'', ''--'', ''upload'', ignitionFile, ''/ignition/config.ign''] st) (\<lambda>st _.
     orReturn (execCmd_part000 os [''--remote'', ''--'', ''umount-all''] st) (\<lambda>st _.
     orReturn (execCmd_part000 os [''--remote'', ''--'', ''exit''] st) (\<lambda>st _.
       (st, None)))))))))"

subsection \<open>The local file system\<close>

text \<open>
  The paths on which \<^verbatim>\<open>os.Stat\<close> succeeds, each with its bytes and with whether
  \<^verbatim>\<open>os.Open\<close> and reading succeed on it. \<^verbatim>\<open>ioutil.TempFile\<close> tries the candidate
  suffixes in turn, as its retry loop does with random ones, and creates the first name that
  does not exist yet; with no candidate left it fails. \<open>temp_write_ok\<close> says whether
  writing to the temporary file succeeds.
\<close>

record fs_node =
  node_bytes :: string
  node_openable :: bool
  node_readable :: bool

record os_world =
  files :: "string \<rightharpoonup> fs_node"
  temp_dir :: string
  temp_suffixes :: "string list"
  temp_write_ok :: bool

fun pickTemp :: "(string \<rightharpoonup> fs_node) \<Rightarrow> string \<Rightarrow> string list \<Rightarrow> string option" where
  "pickTemp fs base [] = None"
| "pickTemp fs base (s # ss) =
     (if fs (base @ s) = None then Some (base @ s) else pickTemp fs base ss)"

definition TempFile :: "os_world \<Rightarrow> string \<Rightarrow> string + (string \<times> os_world)" where
  "TempFile w pattern =
     (case pickTemp (files w) (temp_dir w @ ''/'' @ pattern) (temp_suffixes w) of
        None \<Rightarrow> Inl ''cannot create temporary file''
      | Some name \<Rightarrow>
          Inr (name, w\<lparr>files := (files w)(name \<mapsto>
                 \<lparr>node_bytes = [], node_openable = True, node_readable = True\<rparr>)\<rparr>))"

definition setBytes :: "os_world \<Rightarrow> string \<Rightarrow> string \<Rightarrow> os_world" where
  "setBytes w name bs =
     w\<lparr>files := (files w)(name \<mapsto>
        \<lparr>node_bytes = bs, node_openable = True, node_readable = True\<rparr>)\<rparr>"

text \<open>\<^verbatim>\<open>os.Remove\<close>; its error, for a path that is not there, is only logged by the caller.\<close>

definition Remove :: "os_world \<Rightarrow> string \<Rightarrow> os_world" where
  "Remove w name = w\<lparr>files := (files w)(name := None)\<rparr>"

subsection \<open>Collaborators outside the two files\<close>

record defVolume =
  VolName :: string
  CapacityUnit :: string
  CapacityValue :: nat
  FormatType :: string

record defIgnition =
  Name :: string
  PoolName :: string
  Content :: string

record libvirtClient =
  poolName :: string

record Ignition =
  UserDataSecret :: string

text \<open>
  What the code calls and the two files do not define: \<^verbatim>\<open>json.Unmarshal\<close> into a
  \<^verbatim>\<open>map[string]interface{}\<close> (only whether it succeeds is used), the volume helpers
  \<^verbatim>\<open>newDefVolume\<close>, \<^verbatim>\<open>newImage\<close>, \<^verbatim>\<open>img.size\<close> and \<^verbatim>\<open>uploadVolume\<close>, and the
  secret store. They are parameters; none of them changes the local file system.
\<close>

record 'img backend =
  UnmarshalObject :: "string \<Rightarrow> bool"
  newDefVolume :: "string \<Rightarrow> defVolume"
  newImage :: "os_world \<Rightarrow> string \<Rightarrow> string + 'img"
  imgSize :: "'img \<Rightarrow> string + nat"
  uploadVolume :: "string \<Rightarrow> defVolume \<Rightarrow> 'img \<Rightarrow> string + string"
  secretGet :: "string \<Rightarrow> string \<Rightarrow> string + (string \<rightharpoonup> string)"

subsection \<open>Resolving and uploading the configuration\<close>

definition newIgnitionDef :: defIgnition where
  "newIgnitionDef = \<lparr>Name = [], PoolName = [], Content = []\<rparr>"

definition invalidConfiguration :: "string \<Rightarrow> failure" where
  "invalidConfiguration content =
     Error (''coreos_ignition '' @ [CHR 0x27] @ ''content'' @ [CHR 0x27] @
            '' is neither a file nor a valid json object '' @ content)"

text \<open>\<^verbatim>\<open>createFile\<close>. The temporary file is closed on every return and removed on none.\<close>

definition createFile ::
  "'img backend \<Rightarrow> defIgnition \<Rightarrow> os_world \<Rightarrow> os_world \<times> (failure + string)" where
  "createFile be ign w =
     (case TempFile w (Name ign) of
        Inl err \<Rightarrow> (w, Inl (Error (''Cannot create tmp file for Ignition: '' @ err)))
      | Inr (tempFile, w) \<Rightarrow>
          (case files w (Content ign) of
             None \<Rightarrow>
               if \<not> UnmarshalObject be (Content ign)
               then (w, Inl (invalidConfiguration (Content ign)))
               else if \<not> temp_write_ok w
               then (w, Inl (Error ''Cannot write Ignition object to temporary ignition file''))
               else (setBytes w tempFile (Content ign), Inr tempFile)
           | Some ignFile \<Rightarrow>
               if \<not> node_openable ignFile
               then (w, Inl (Error (''Error opening supplied Ignition file '' @ Content ign)))
               else if \<not> (node_readable ignFile \<and> temp_write_ok w)
               then (w, Inl (Error (''Error copying supplied Igition file to temporary file: '' @ Content ign)))
               else (setBytes w tempFile (node_bytes ignFile), Inr tempFile)))"

text \<open>\<^verbatim>\<open>createAndUpload\<close>. The deferred removal is registered only after \<^verbatim>\<open>createFile\<close> has
  returned without error; from there on it runs on every return.\<close>

definition createAndUpload ::
  "'img backend \<Rightarrow> defIgnition \<Rightarrow> os_world \<Rightarrow> os_world \<times> (failure + string)" where
  "createAndUpload be ign w =
     (let volumeDef = newDefVolume be (Name ign) in
      case createFile be ign w of
        (w, Inl err) \<Rightarrow> (w, Inl err)
      | (w, Inr ignFile) \<Rightarrow>
          (let deferred = (\<lambda>w. Remove w ignFile) in
           case newImage be w ignFile of
             Inl err \<Rightarrow> (deferred w, Inl (Error err))
           | Inr img \<Rightarrow>
               (case imgSize be img of
                  Inl err \<Rightarrow> (deferred w, Inl (Error err))
                | Inr sz \<Rightarrow>
                    (let volumeDef = volumeDef\<lparr>CapacityUnit := ''B'', CapacityValue := sz,
                                                FormatType := ''raw''\<rparr>
                     in case uploadVolume be (PoolName ign) volumeDef img of
                          Inl err \<Rightarrow> (deferred w, Inl (Error err))
                        | Inr key \<Rightarrow> (deferred w, Inr key)))))"

definition secretError :: "string \<Rightarrow> string \<Rightarrow> string \<Rightarrow> failure" where
  "secretError machineNamespace secretName why =
     Error (''can not retrieve user data secret '' @ [CHR 0x27] @ machineNamespace @ ''/'' @
            secretName @ [CHR 0x27] @ '' when constructing cloud init volume: '' @ why)"

text \<open>\<^verbatim>\<open>setIgnition\<close>: the domain's command line is assigned a fresh two-argument value.\<close>

definition setIgnition ::
  "'img backend \<Rightarrow> Domain \<Rightarrow> libvirtClient \<Rightarrow> Ignition \<Rightarrow> string \<Rightarrow> string \<Rightarrow> os_world
     \<Rightarrow> os_world \<times> Domain \<times> failure option" where
  "setIgnition be domainDef client ignition machineNamespace volumeName w =
     (let ignitionDef = newIgnitionDef in
      if UserDataSecret ignition = [] then (w, domainDef, Some (Error ''ignition.userDataSecret not set''))
      else
      case secretGet be machineNamespace (UserDataSecret ignition) of
        Inl err \<Rightarrow> (w, domainDef, Some (secretError machineNamespace (UserDataSecret ignition) err))
      | Inr secretData \<Rightarrow>
          (case secretData ''userData'' of
             None \<Rightarrow> (w, domainDef, Some (secretError machineNamespace (UserDataSecret ignition)
                        (''key '' @ [CHR 0x27] @ ''userData'' @ [CHR 0x27] @ '' not found in the secret'')))
           | Some userDataSecret \<Rightarrow>
               (let ignitionDef = ignitionDef\<lparr>Name := volumeName, PoolName := poolName client,
                                                Content := userDataSecret\<rparr>
                in case createAndUpload be ignitionDef w of
                     (w, Inl err) \<Rightarrow> (w, domainDef, Some err)
                   | (w, Inr ignitionVolumeName) \<Rightarrow>
                       (w,
                        domainDef\<lparr>QEMUCommandline := Some
                          \<lparr>QArgs = [\<lparr>Value = ''-fw_cfg''\<rparr>,
                                    \<lparr>Value = ''name=opt/com.coreos/config,file='' @ ignitionVolumeName\<rparr>],
                           QEnvs = []\<rparr>\<rparr>,
                        None))))"

subsection \<open>Concrete surroundings for the examples\<close>

definition exampleOS :: "string \<Rightarrow> string \<Rightarrow> os_iface" where
  "exampleOS listenOut lookupOut =
     \<lparr>LookPath = (\<lambda>name. ''/usr/bin/'' @ name),
      CombinedOutput = (\<lambda>history c.
         if ''findfs-label'' \<in> set (Args c) \<or> ''list-filesystems'' \<in> set (Args c)
         then (lookupOut, None) else ([], None)),
      Start = (\<lambda>history c. Started listenOut)\<rparr>"

definition exampleDomain :: Domain where
  "exampleDomain =
     \<lparr>Devices = Some \<lparr>Disks = [\<lparr>Source = Some \<lparr>SourceFile = Some \<lparr>File = ''/var/lib/img/m0''\<rparr>\<rparr>\<rparr>]\<rparr>,
      QEMUCommandline = None\<rparr>"

definition freshProc :: proc_st where
  "freshProc = \<lparr>trace = [], environ = Map.empty\<rparr>"

definition failingOS :: "string \<Rightarrow> string \<Rightarrow> string \<Rightarrow> os_iface" where
  "failingOS listenOut lookupOut failing =
     \<lparr>LookPath = (\<lambda>name. ''/usr/bin/'' @ name),
      CombinedOutput = (\<lambda>history c.
         if failing \<in> set (Args c) then ([], Some ''exit status 1'')
         else if ''findfs-label'' \<in> set (Args c) \<or> ''list-filesystems'' \<in> set (Args c)
         then (lookupOut, None) else ([], None)),
      Start = (\<lambda>history c. Started listenOut)\<rparr>"

definition disklessDomain :: Domain where
  "disklessDomain = \<lparr>Devices = Some \<lparr>Disks = []\<rparr>, QEMUCommandline = None\<rparr>"

definition sourcelessDomain :: Domain where
  "sourcelessDomain = \<lparr>Devices = Some \<lparr>Disks = [\<lparr>Source = None\<rparr>]\<rparr>, QEMUCommandline = None\<rparr>"

text \<open>A backend for the examples: its \<open>UnmarshalObject\<close> accepts the one document used in
  them, an image is a path with the length of its file, and the upload answers with a key
  made from the volume name.\<close>

definition exampleBackend :: "(string \<times> nat) backend" where
  "exampleBackend =
     \<lparr>UnmarshalObject = (\<lambda>s. s = ''{}''),
      newDefVolume = (\<lambda>name. \<lparr>VolName = name, CapacityUnit = ''bytes'', CapacityValue = 1, FormatType = ''qcow2''\<rparr>),
      newImage = (\<lambda>w p. case files w p of
                             None \<Rightarrow> Inl (''stat '' @ p @ '': no such file or directory'')
                           | Some f \<Rightarrow> Inr (p, length (node_bytes f))),
      imgSize = (\<lambda>img. Inr (snd img)),
      uploadVolume = (\<lambda>pool vol img. Inr (''/var/lib/libvirt/images/'' @ VolName vol)),
      secretGet = (\<lambda>namespace name.
         if name = ''worker-user-data'' then Inr [''userData'' \<mapsto> ''{}'']
         else Inl ''secret not found'')\<rparr>"

definition exampleWorld :: os_world where
  "exampleWorld =
     \<lparr>files = [''/etc/worker.ign'' \<mapsto> \<lparr>node_bytes = ''{}'', node_openable = True, node_readable = True\<rparr>,
               ''/etc/secret.ign'' \<mapsto> \<lparr>node_bytes = ''{}'', node_openable = False, node_readable = False\<rparr>,
               ''/etc'' \<mapsto> \<lparr>node_bytes = [], node_openable = True, node_readable = False\<rparr>],
      temp_dir = ''/tmp'',
      temp_suffixes = [''123456''],
      temp_write_ok = True\<rparr>"

definition domainWithArgs :: Domain where
  "domainWithArgs =
     \<lparr>Devices = None,
      QEMUCommandline = Some \<lparr>QArgs = [\<lparr>Value = ''-nographic''\<rparr>], QEnvs = []\<rparr>\<rparr>"

subsection \<open>A session that keeps to a given order\<close>

text \<open>
  The outcome \<open>res\<close> of running on from state \<open>st\<close> keeps to the command list \<open>cs\<close>: the
  commands launched are an initial part of \<open>cs\<close>, all of \<open>cs\<close> when no error is returned; the
  process's environment is as before; and a command whose run fails is the last one
  launched, the error returned being the one \<^verbatim>\<open>execCmd\<close> makes from its command line.
\<close>

definition runsInOrder :: "os_iface \<Rightarrow> proc_st \<Rightarrow> cmd list \<Rightarrow> proc_st \<times> failure option \<Rightarrow> bool" where
  "runsInOrder os st cs res \<longleftrightarrow>
     (\<exists>new. trace (fst res) = trace st @ new \<and> environ (fst res) = environ st \<and> prefix new cs \<and>
        (snd res = None \<longrightarrow> new = cs) \<and>
        (\<forall>k e. k < length new \<and> snd (CombinedOutput os (trace st @ take k new) (new ! k)) = Some e \<longrightarrow>
               Suc k = length new \<and> snd res = Some (Error (runError (Path (new ! k)) (Args (new ! k)) e))))"

section \<open>Properties\<close>

subsection \<open>Facts about the library functions\<close>

lemma length_Split: "length (Split s sep) = Suc (count_list s sep)"
  by (induction s) (auto split: list.splits)

lemma Split_without_separator: "sep \<notin> set s \<Longrightarrow> Split s sep = [s]"
  by (induction s) auto

text \<open>\<^verbatim>\<open>TrimSpace\<close> on an answer with blanks and a line feed around it, on a lone no-break space
  (U+00A0) and on a truncated encoding, which is no white space.\<close>

lemma TrimSpace_examples:
  "TrimSpace ('' /dev/sda1'' @ [CHR 0x0A]) = ''/dev/sda1''"
  "TrimSpace [CHR 0xC2, CHR 0xA0] = []"
  "TrimSpace ([CHR 0xE2, CHR 0x80, CHR 0xA8] @ ''a b'' @ [CHR 0xC2, CHR 0x85, CHR 0x20]) = ''a b''"
  "TrimSpace [CHR 0xE2, CHR 0x80] = [CHR 0xE2, CHR 0x80]"
  by (simp_all add: TrimSpace_def spaceEncodings_def trimFront.simps)

subsection \<open>Handle parsing in the copy of part_000\<close>

text \<open>
  C10. In \<^verbatim>\<open>injectIgnitionByGuestfish\<close> of part_000, whenever the output of the listen step
  splits on \<^verbatim>\<open>;\<close> into exactly two segments and the first segment holds no \<^verbatim>\<open>=\<close>, the
  malformed-handle test (which looks at the semicolon split again) lets the output through,
  and the index \<^verbatim>\<open>strArray1[1]\<close> is out of range: the function panics right after the
  listen step, where a parse error was meant to be returned.
\<close>

theorem C10_part000_panics_on_handle_without_equals:
  assumes disk: "firstDiskFile domainDef = Inr disk"
    and started: "Start os (trace st0) (Command os ''guestfish'' [''--listen'', ''-a'', disk]) = Started output"
    and two: "length (Split output CHR '';'') = 2"
    and noeq: "CHR ''='' \<notin> set (Split output CHR '';'' ! 0)"
  shows "injectIgnitionByGuestfish_part000 os domainDef ignitionFile st0 =
           (st0\<lparr>trace := trace st0 @ [Command os ''guestfish'' [''--listen'', ''-a'', disk]]\<rparr>,
            Some (Panic ''index out of range [1] with length 1''))"
proof -
  have one: "length (Split (Split output CHR '';'' ! 0) CHR ''='') = 1"
    using noeq by (simp add: Split_without_separator)
  show ?thesis
    using disk started two one
    by (simp add: injectIgnitionByGuestfish_part000_def orReturn_def startCmd_part000_def Let_def)
qed

theorem C10_part000_panics_witness:
  "injectIgnitionByGuestfish_part000 (exampleOS ''FOO; bar'' []) exampleDomain ''/tmp/ign0'' freshProc =
     (\<lparr>trace = [\<lparr>Path = ''/usr/bin/guestfish'',
                  Args = [''guestfish'', ''--listen'', ''-a'', ''/var/lib/img/m0''],
                  Env = None\<rparr>],
       environ = Map.empty\<rparr>,
      Some (Panic ''index out of range [1] with length 1''))"
  using C10_part000_panics_on_handle_without_equals
    [of exampleDomain "''/var/lib/img/m0''" "exampleOS ''FOO; bar'' []" freshProc "''FOO; bar''" "''/tmp/ign0''"]
  by (simp add: exampleDomain_def exampleOS_def freshProc_def firstDiskFile_def Command_def)

subsection \<open>The order of the session in ignition.go\<close>

lemma execCmd_eq:
  "execCmd os r env args st =
     (st\<lparr>trace := trace st @ [genCmd os r env args]\<rparr>,
      fst (CombinedOutput os (trace st) (genCmd os r env args)),
      map_option (runError (Path (genCmd os r env args)) (Args (genCmd os r env args)))
        (snd (CombinedOutput os (trace st) (genCmd os r env args))))"
  by (simp add: execCmd_def Let_def split: prod.splits)

lemma runsInOrder_stop: "runsInOrder os st cs (st, Some err)"
  by (simp add: runsInOrder_def)

lemma runsInOrder_done: "runsInOrder os st [] (st, None)"
  by (simp add: runsInOrder_def)

lemma runsInOrder_step:
  assumes c: "c = genCmd os r env args"
    and rest: "snd (CombinedOutput os (trace st) c) = None \<Longrightarrow>
           runsInOrder os (st\<lparr>trace := trace st @ [c]\<rparr>) cs
             (k (st\<lparr>trace := trace st @ [c]\<rparr>) (fst (CombinedOutput os (trace st) c)))"
  shows "runsInOrder os st (c # cs) (orReturn (execCmd os r env args st) k)"
proof (cases "snd (CombinedOutput os (trace st) c)")
  case (Some e)
  then have res: "orReturn (execCmd os r env args st) k =
      (st\<lparr>trace := trace st @ [c]\<rparr>, Some (Error (runError (Path c) (Args c) e)))"
    by (simp add: orReturn_def execCmd_eq c)
  show ?thesis
    unfolding runsInOrder_def res
    by (rule exI [of _ "[c]"]) (use Some in simp)
next
  case None
  let ?st1 = "st\<lparr>trace := trace st @ [c]\<rparr>"
  let ?res = "k ?st1 (fst (CombinedOutput os (trace st) c))"
  from None have res: "orReturn (execCmd os r env args st) k = ?res"
    by (simp add: orReturn_def execCmd_eq c)
  from rest [OF None] obtain new where
    tr: "trace (fst ?res) = trace ?st1 @ new" and en: "environ (fst ?res) = environ ?st1"
    and pre: "prefix new cs" and fin: "snd ?res = None \<longrightarrow> new = cs"
    and fail: "\<forall>j e. j < length new \<and> snd (CombinedOutput os (trace ?st1 @ take j new) (new ! j)) = Some e
                 \<longrightarrow> Suc j = length new \<and> snd ?res = Some (Error (runError (Path (new ! j)) (Args (new ! j)) e))"
    unfolding runsInOrder_def by (elim exE conjE)
  have all: "\<forall>j e. j < length (c # new) \<and>
          snd (CombinedOutput os (trace st @ take j (c # new)) ((c # new) ! j)) = Some e \<longrightarrow>
          Suc j = length (c # new) \<and>
          snd ?res = Some (Error (runError (Path ((c # new) ! j)) (Args ((c # new) ! j)) e))"
  proof (intro allI impI)
    fix j e
    assume a: "j < length (c # new) \<and>
          snd (CombinedOutput os (trace st @ take j (c # new)) ((c # new) ! j)) = Some e"
    show "Suc j = length (c # new) \<and>
          snd ?res = Some (Error (runError (Path ((c # new) ! j)) (Args ((c # new) ! j)) e))"
    proof (cases j)
      case 0
      with a None show ?thesis by simp
    next
      case (Suc i)
      from a Suc have i: "i < length new"
        and o: "snd (CombinedOutput os (trace ?st1 @ take i new) (new ! i)) = Some e"
        by simp_all
      note fail [rule_format, OF conjI [OF i o]]
      then have A: "Suc i = length new"
        and B: "snd ?res = Some (Error (runError (Path (new ! i)) (Args (new ! i)) e))"
        by (rule conjunct1, rule conjunct2)
      have "Suc j = length (c # new)"
        unfolding Suc using A by simp
      moreover have "snd ?res = Some (Error (runError (Path ((c # new) ! j)) (Args ((c # new) ! j)) e))"
        unfolding Suc nth_Cons_Suc by (rule B)
      ultimately show ?thesis ..
    qed
  qed
  show ?thesis
    unfolding runsInOrder_def res
  proof (intro exI [of _ "c # new"] conjI)
    show "trace (fst ?res) = trace st @ c # new" using tr by simp
    show "environ (fst ?res) = environ st" using en by simp
    show "prefix (c # new) (c # cs)" using pre by simp
    show "snd ?res = None \<longrightarrow> c # new = c # cs" using fin by simp
  qed (rule all)
qed


lemma inject_after_listen:
  assumes disk: "firstDiskFile domainDef = Inr disk"
    and started: "Start os (trace st0) (genCmd os True [] [''--listen'', ''-a'', disk]) = Started output"
    and semi: "length (Split output CHR '';'') = 2"
    and eq: "length (Split (Split output CHR '';'' ! 0) CHR ''='') = 2"
    and env: "env = [Split output CHR '';'' ! 0]"
    and c0: "c0 = genCmd os True [] [''--listen'', ''-a'', disk]"
    and c1: "c1 = genCmd os True env [''--remote'', ''--'', ''run'']"
    and c2: "c2 = genCmd os True env [''--remote'', ''--'', ''findfs-label'', ''boot'']"
    and dev: "dev = TrimSpace (fst (CombinedOutput os (trace st0 @ [c0, c1]) c2))"
  shows "runsInOrder os (st0\<lparr>trace := trace st0 @ [c0]\<rparr>)
           [c1, c2,
            genCmd os True env [''--remote'', ''--'', ''mount'', dev, ''/''],
            genCmd os True env [''--remote'', ''--'', ''upload'', ignitionFile, ''/ignition/config.ign''],
            genCmd os True env [''--remote'', ''--'', ''umount-all''],
            genCmd os True env [''--remote'', ''--'', ''exit'']]
           (injectIgnitionByGuestfish os domainDef ignitionFile st0)"
proof -
  have start: "startCmd os True [] [''--listen'', ''-a'', disk] st0 =
                 (st0\<lparr>trace := trace st0 @ [c0]\<rparr>, output, None)"
    using started by (simp add: startCmd_def c0 Let_def)
  show ?thesis
    unfolding injectIgnitionByGuestfish_def
    apply (simp add: disk start semi eq Let_def orReturn_def [of "(_, _, None)"] flip: env)
    unfolding c1 c2
    apply (rule runsInOrder_step, rule refl)
    apply (rule runsInOrder_step, rule refl)
    apply (simp add: dev c0 c1 c2 flip: env)
    apply (intro conjI impI runsInOrder_stop)
    apply (rule runsInOrder_step, rule refl)
    apply (rule runsInOrder_step, rule refl)
    apply (rule runsInOrder_step, rule refl)
    apply (rule runsInOrder_step, rule refl)
    apply (rule runsInOrder_done)
    done
qed


lemma inject_listen_fails:
  assumes disk: "firstDiskFile domainDef = Inr disk"
    and c0: "c0 = genCmd os True [] [''--listen'', ''-a'', disk]"
    and bad: "\<And>out. Start os (trace st0) c0 = Started out \<Longrightarrow>
                 length (Split out CHR '';'') \<noteq> 2 \<or>
                 length (Split (Split out CHR '';'' ! 0) CHR ''='') \<noteq> 2"
  shows "(\<exists>err. snd (injectIgnitionByGuestfish os domainDef ignitionFile st0) = Some (Error err)) \<and>
         environ (fst (injectIgnitionByGuestfish os domainDef ignitionFile st0)) = environ st0 \<and>
         (trace (fst (injectIgnitionByGuestfish os domainDef ignitionFile st0)) = trace st0 \<or>
          trace (fst (injectIgnitionByGuestfish os domainDef ignitionFile st0)) = trace st0 @ [c0])"
proof (cases "Start os (trace st0) c0")
  case (StdoutPipeError e)
  then show ?thesis
    by (simp add: injectIgnitionByGuestfish_def disk startCmd_def orReturn_def Let_def flip: c0)
next
  case (StartError e)
  then show ?thesis
    by (simp add: injectIgnitionByGuestfish_def disk startCmd_def orReturn_def Let_def flip: c0)
next
  case (ReadError e)
  then show ?thesis
    by (simp add: injectIgnitionByGuestfish_def disk startCmd_def orReturn_def Let_def flip: c0)
next
  case (Started out)
  from bad [OF Started] show ?thesis
  proof
    assume "length (Split out CHR '';'') \<noteq> 2"
    with Started show ?thesis
      by (simp add: injectIgnitionByGuestfish_def disk startCmd_def orReturn_def Let_def flip: c0)
  next
    assume "length (Split (Split out CHR '';'' ! 0) CHR ''='') \<noteq> 2"
    with Started show ?thesis
      by (simp add: injectIgnitionByGuestfish_def disk startCmd_def orReturn_def Let_def flip: c0)
  qed
qed

text \<open>The command \<^verbatim>\<open>genCmd\<close> builds with privilege escalation, and the error text of
  \<^verbatim>\<open>execCmd\<close>, written out.\<close>

lemma genCmd_sudo:
  "genCmd os True env args =
     \<lparr>Path = LookPath os ''sudo'',
      Args = ''sudo'' # ''--preserve-env'' # ''guestfish'' # args,
      Env = (if env = [] then None else Some env)\<rparr>"
  by (simp add: genCmd_def Command_def Let_def)

lemma runError_explicit:
  "runError p as e =
     ''error running command '' @ [CHR 0x27] @ p @ '' '' @ Join as '' '' @ [CHR 0x27] @ '': '' @ e"
  by (simp add: runError_def Wrapf_def cmdline_def)

lemma inject_paths:
  assumes disk: "firstDiskFile domainDef = Inr disk"
    and started: "Start os (trace st0) c0 = Started out"
    and semi: "length (Split out CHR '';'') = 2"
    and eq: "length (Split (Split out CHR '';'' ! 0) CHR ''='') = 2"
    and env: "env = [Split out CHR '';'' ! 0]"
    and c0: "c0 = genCmd os True [] [''--listen'', ''-a'', disk]"
    and c1: "c1 = genCmd os True env [''--remote'', ''--'', ''run'']"
    and c2: "c2 = genCmd os True env [''--remote'', ''--'', ''findfs-label'', ''boot'']"
    and c3: "c3 = genCmd os True env [''--remote'', ''--'', ''mount'', dev, ''/'']"
    and c4: "c4 = genCmd os True env [''--remote'', ''--'', ''upload'', ignitionFile, ''/ignition/config.ign'']"
    and c5: "c5 = genCmd os True env [''--remote'', ''--'', ''umount-all'']"
    and c6: "c6 = genCmd os True env [''--remote'', ''--'', ''exit'']"
    and r1: "CombinedOutput os (trace st0 @ [c0]) c1 = (x1, o1)"
    and r2: "CombinedOutput os (trace st0 @ [c0, c1]) c2 = (x2, o2)"
    and r3: "CombinedOutput os (trace st0 @ [c0, c1, c2]) c3 = (x3, o3)"
    and r4: "CombinedOutput os (trace st0 @ [c0, c1, c2, c3]) c4 = (x4, o4)"
    and r5: "CombinedOutput os (trace st0 @ [c0, c1, c2, c3, c4]) c5 = (x5, o5)"
    and r6: "CombinedOutput os (trace st0 @ [c0, c1, c2, c3, c4, c5]) c6 = (x6, o6)"
    and dev: "dev = TrimSpace x2"
  shows "o1 = Some e \<Longrightarrow>
       injectIgnitionByGuestfish os domainDef ignitionFile st0 =
         (st0\<lparr>trace := trace st0 @ [c0, c1]\<rparr>, Some (Error (runError (Path c1) (Args c1) e)))"
    and "o1 = None \<Longrightarrow> o2 = Some e \<Longrightarrow>
       injectIgnitionByGuestfish os domainDef ignitionFile st0 =
         (st0\<lparr>trace := trace st0 @ [c0, c1, c2]\<rparr>, Some (Error (runError (Path c2) (Args c2) e)))"
    and "o1 = None \<Longrightarrow> o2 = None \<Longrightarrow> dev \<noteq> [] \<Longrightarrow> o3 = Some e \<Longrightarrow>
       injectIgnitionByGuestfish os domainDef ignitionFile st0 =
         (st0\<lparr>trace := trace st0 @ [c0, c1, c2, c3]\<rparr>, Some (Error (runError (Path c3) (Args c3) e)))"
    and "o1 = None \<Longrightarrow> o2 = None \<Longrightarrow> dev \<noteq> [] \<Longrightarrow> o3 = None \<Longrightarrow> o4 = Some e \<Longrightarrow>
       injectIgnitionByGuestfish os domainDef ignitionFile st0 =
         (st0\<lparr>trace := trace st0 @ [c0, c1, c2, c3, c4]\<rparr>, Some (Error (runError (Path c4) (Args c4) e)))"
    and "o1 = None \<Longrightarrow> o2 = None \<Longrightarrow> dev \<noteq> [] \<Longrightarrow> o3 = None \<Longrightarrow> o4 = None \<Longrightarrow> o5 = Some e \<Longrightarrow>
       injectIgnitionByGuestfish os domainDef ignitionFile st0 =
         (st0\<lparr>trace := trace st0 @ [c0, c1, c2, c3, c4, c5]\<rparr>, Some (Error (runError (Path c5) (Args c5) e)))"
    and "o1 = None \<Longrightarrow> o2 = None \<Longrightarrow> dev \<noteq> [] \<Longrightarrow> o3 = None \<Longrightarrow> o4 = None \<Longrightarrow> o5 = None \<Longrightarrow> o6 = Some e \<Longrightarrow>
       injectIgnitionByGuestfish os domainDef ignitionFile st0 =
         (st0\<lparr>trace := trace st0 @ [c0, c1, c2, c3, c4, c5, c6]\<rparr>, Some (Error (runError (Path c6) (Args c6) e)))"
    and "o1 = None \<Longrightarrow> o2 = None \<Longrightarrow> dev = [] \<Longrightarrow>
       injectIgnitionByGuestfish os domainDef ignitionFile st0 =
         (st0\<lparr>trace := trace st0 @ [c0, c1, c2]\<rparr>, Some (Error ''failed to get the boot filesystem''))"
    and "o1 = None \<Longrightarrow> o2 = None \<Longrightarrow> dev \<noteq> [] \<Longrightarrow> o3 = None \<Longrightarrow> o4 = None \<Longrightarrow> o5 = None \<Longrightarrow> o6 = None \<Longrightarrow>
       injectIgnitionByGuestfish os domainDef ignitionFile st0 =
         (st0\<lparr>trace := trace st0 @ [c0, c1, c2, c3, c4, c5, c6]\<rparr>, None)"

proof -
  have start: "startCmd os True [] [''--listen'', ''-a'', disk] st0 =
                 (st0\<lparr>trace := trace st0 @ [c0]\<rparr>, out, None)"
    using started by (simp add: startCmd_def c0 Let_def)
  have e1: "execCmd os True env [''--remote'', ''--'', ''run''] (st0\<lparr>trace := trace st0 @ [c0]\<rparr>) =
      (st0\<lparr>trace := trace st0 @ [c0, c1]\<rparr>, x1, map_option (runError (Path c1) (Args c1)) o1)"
    using r1 by (simp add: execCmd_eq c1)
  have e2: "execCmd os True env [''--remote'', ''--'', ''findfs-label'', ''boot''] (st0\<lparr>trace := trace st0 @ [c0, c1]\<rparr>) =
      (st0\<lparr>trace := trace st0 @ [c0, c1, c2]\<rparr>, x2, map_option (runError (Path c2) (Args c2)) o2)"
    using r2 by (simp add: execCmd_eq c2)
  have e3: "execCmd os True env [''--remote'', ''--'', ''mount'', dev, ''/''] (st0\<lparr>trace := trace st0 @ [c0, c1, c2]\<rparr>) =
      (st0\<lparr>trace := trace st0 @ [c0, c1, c2, c3]\<rparr>, x3, map_option (runError (Path c3) (Args c3)) o3)"
    using r3 by (simp add: execCmd_eq c3)
  have e4: "execCmd os True env [''--remote'', ''--'', ''upload'', ignitionFile, ''/ignition/config.ign''] (st0\<lparr>trace := trace st0 @ [c0, c1, c2, c3]\<rparr>) =
      (st0\<lparr>trace := trace st0 @ [c0, c1, c2, c3, c4]\<rparr>, x4, map_option (runError (Path c4) (Args c4)) o4)"
    using r4 by (simp add: execCmd_eq c4)
  have e5: "execCmd os True env [''--remote'', ''--'', ''umount-all''] (st0\<lparr>trace := trace st0 @ [c0, c1, c2, c3, c4]\<rparr>) =
      (st0\<lparr>trace := trace st0 @ [c0, c1, c2, c3, c4, c5]\<rparr>, x5, map_option (runError (Path c5) (Args c5)) o5)"
    using r5 by (simp add: execCmd_eq c5)
  have e6: "execCmd os True env [''--remote'', ''--'', ''exit''] (st0\<lparr>trace := trace st0 @ [c0, c1, c2, c3, c4, c5]\<rparr>) =
      (st0\<lparr>trace := trace st0 @ [c0, c1, c2, c3, c4, c5, c6]\<rparr>, x6, map_option (runError (Path c6) (Args c6)) o6)"
    using r6 by (simp add: execCmd_eq c6)
  have bd: "TrimSpace x2 = dev" by (simp add: dev)
  note ev = disk start semi eq e1 e2 e3 e4 e5 e6 bd Let_def orReturn_def
  show "injectIgnitionByGuestfish os domainDef ignitionFile st0 =
         (st0\<lparr>trace := trace st0 @ [c0, c1]\<rparr>, Some (Error (runError (Path c1) (Args c1) e)))"
    if "o1 = Some e"
    unfolding injectIgnitionByGuestfish_def
    using that by (simp add: ev flip: env)
  show "injectIgnitionByGuestfish os domainDef ignitionFile st0 =
         (st0\<lparr>trace := trace st0 @ [c0, c1, c2]\<rparr>, Some (Error (runError (Path c2) (Args c2) e)))"
    if "o1 = None" "o2 = Some e"
    unfolding injectIgnitionByGuestfish_def
    using that by (simp add: ev flip: env)
  show "injectIgnitionByGuestfish os domainDef ignitionFile st0 =
         (st0\<lparr>trace := trace st0 @ [c0, c1, c2, c3]\<rparr>, Some (Error (runError (Path c3) (Args c3) e)))"
    if "o1 = None" "o2 = None" "dev \<noteq> []" "o3 = Some e"
    unfolding injectIgnitionByGuestfish_def
    using that by (simp add: ev flip: env)
  show "injectIgnitionByGuestfish os domainDef ignitionFile st0 =
         (st0\<lparr>trace := trace st0 @ [c0, c1, c2, c3, c4]\<rparr>, Some (Error (runError (Path c4) (Args c4) e)))"
    if "o1 = None" "o2 = None" "dev \<noteq> []" "o3 = None" "o4 = Some e"
    unfolding injectIgnitionByGuestfish_def
    using that by (simp add: ev flip: env)
  show "injectIgnitionByGuestfish os domainDef ignitionFile st0 =
         (st0\<lparr>trace := trace st0 @ [c0, c1, c2, c3, c4, c5]\<rparr>, Some (Error (runError (Path c5) (Args c5) e)))"
    if "o1 = None" "o2 = None" "dev \<noteq> []" "o3 = None" "o4 = None" "o5 = Some e"
    unfolding injectIgnitionByGuestfish_def
    using that by (simp add: ev flip: env)
  show "injectIgnitionByGuestfish os domainDef ignitionFile st0 =
         (st0\<lparr>trace := trace st0 @ [c0, c1, c2, c3, c4, c5, c6]\<rparr>, Some (Error (runError (Path c6) (Args c6) e)))"
    if "o1 = None" "o2 = None" "dev \<noteq> []" "o3 = None" "o4 = None" "o5 = None" "o6 = Some e"
    unfolding injectIgnitionByGuestfish_def
    using that by (simp add: ev flip: env)
  show "injectIgnitionByGuestfish os domainDef ignitionFile st0 =
         (st0\<lparr>trace := trace st0 @ [c0, c1, c2]\<rparr>, Some (Error ''failed to get the boot filesystem''))"
    if "o1 = None" "o2 = None" "dev = []"
    unfolding injectIgnitionByGuestfish_def
    using that by (simp add: ev flip: env)
  show "injectIgnitionByGuestfish os domainDef ignitionFile st0 =
         (st0\<lparr>trace := trace st0 @ [c0, c1, c2, c3, c4, c5, c6]\<rparr>, None)"
    if "o1 = None" "o2 = None" "dev \<noteq> []" "o3 = None" "o4 = None" "o5 = None" "o6 = None"
    unfolding injectIgnitionByGuestfish_def
    using that by (simp add: ev flip: env)
qed

text \<open>The clauses of the order of the session, from the outcome of each of its eight
  paths after a handle that parsed.\<close>

lemma session_clauses:
  assumes steps: "steps = [c0, c1, c2, c3, c4, c5, c6]"
    and o1: "o1 = snd (CombinedOutput os (h @ [c0]) c1)"
    and o2: "o2 = snd (CombinedOutput os (h @ [c0, c1]) c2)"
    and o3: "o3 = snd (CombinedOutput os (h @ [c0, c1, c2]) c3)"
    and o4: "o4 = snd (CombinedOutput os (h @ [c0, c1, c2, c3]) c4)"
    and o5: "o5 = snd (CombinedOutput os (h @ [c0, c1, c2, c3, c4]) c5)"
    and o6: "o6 = snd (CombinedOutput os (h @ [c0, c1, c2, c3, c4, c5]) c6)"
    and a1: "\<forall>e. o1 = Some e \<longrightarrow> new = [c0, c1] \<and> r = Some (Error (msg c1 e))"
    and a2: "\<forall>e. o1 = None \<longrightarrow> o2 = Some e \<longrightarrow> new = [c0, c1, c2] \<and> r = Some (Error (msg c2 e))"
    and a3: "\<forall>e. o1 = None \<longrightarrow> o2 = None \<longrightarrow> dev \<noteq> [] \<longrightarrow> o3 = Some e \<longrightarrow> new = [c0, c1, c2, c3] \<and> r = Some (Error (msg c3 e))"
    and a4: "\<forall>e. o1 = None \<longrightarrow> o2 = None \<longrightarrow> dev \<noteq> [] \<longrightarrow> o3 = None \<longrightarrow> o4 = Some e \<longrightarrow> new = [c0, c1, c2, c3, c4] \<and> r = Some (Error (msg c4 e))"
    and a5: "\<forall>e. o1 = None \<longrightarrow> o2 = None \<longrightarrow> dev \<noteq> [] \<longrightarrow> o3 = None \<longrightarrow> o4 = None \<longrightarrow> o5 = Some e \<longrightarrow> new = [c0, c1, c2, c3, c4, c5] \<and> r = Some (Error (msg c5 e))"
    and a6: "\<forall>e. o1 = None \<longrightarrow> o2 = None \<longrightarrow> dev \<noteq> [] \<longrightarrow> o3 = None \<longrightarrow> o4 = None \<longrightarrow> o5 = None \<longrightarrow> o6 = Some e \<longrightarrow> new = [c0, c1, c2, c3, c4, c5, c6] \<and> r = Some (Error (msg c6 e))"
    and a0: "o1 = None \<longrightarrow> o2 = None \<longrightarrow> dev = [] \<longrightarrow> new = [c0, c1, c2] \<and> r = Some (Error stopped)"
    and a7: "o1 = None \<longrightarrow> o2 = None \<longrightarrow> dev \<noteq> [] \<longrightarrow> o3 = None \<longrightarrow> o4 = None \<longrightarrow> o5 = None \<longrightarrow> o6 = None \<longrightarrow> new = [c0, c1, c2, c3, c4, c5, c6] \<and> r = None"
  shows "prefix new steps \<and>
      2 \<le> length new \<and>
      (\<forall>k. 0 < k \<and> k < 6 \<and> k < length new \<and>
           snd (CombinedOutput os (h @ take k steps) (steps ! k)) = None \<and>
           (k = 2 \<longrightarrow> dev \<noteq> []) \<longrightarrow> Suc k < length new) \<and>
      (\<forall>k e. 0 < k \<and> k < length new \<and>
           snd (CombinedOutput os (h @ take k steps) (steps ! k)) = Some e \<longrightarrow>
           Suc k = length new \<and> r = Some (Error (msg (steps ! k) e))) \<and>
      (r = None \<longleftrightarrow>
           length new = 7 \<and> snd (CombinedOutput os (h @ take 6 steps) (steps ! 6)) = None) \<and>
      (2 < length new \<and> snd (CombinedOutput os (h @ take 2 steps) (steps ! 2)) = None \<and> dev = [] \<longrightarrow>
           length new = 3 \<and> r = Some (Error stopped))"
proof -
  show ?thesis
  proof (cases o1)
    case (Some e)
    note s1 = Some
    from a1 [rule_format, OF s1] have "new = [c0, c1] \<and> r = Some (Error (msg c1 e))" .
    then show ?thesis
      using s1 o1 o2 o3 o4 o5 o6 by (auto simp: steps less_Suc_eq)
  next
    case None
    note n1 = None
    show ?thesis
    proof (cases o2)
      case (Some e)
      note s2 = Some
      from a2 [rule_format, OF n1 s2] have "new = [c0, c1, c2] \<and> r = Some (Error (msg c2 e))" .
      then show ?thesis
        using n1 s2 o1 o2 o3 o4 o5 o6 by (auto simp: steps less_Suc_eq)
    next
      case None
      note n2 = None
      show ?thesis
      proof (cases "dev = []")
        case True
        from a0 [rule_format, OF n1 n2 True] have "new = [c0, c1, c2] \<and> r = Some (Error stopped)" .
        then show ?thesis
          using n1 n2 True o1 o2 o3 o4 o5 o6 by (auto simp: steps less_Suc_eq)
      next
        case False
        note d = False
        show ?thesis
        proof (cases o3)
          case (Some e)
          note s3 = Some
          from a3 [rule_format, OF n1 n2 d s3] have "new = [c0, c1, c2, c3] \<and> r = Some (Error (msg c3 e))" .
          then show ?thesis
            using n1 n2 d s3 o1 o2 o3 o4 o5 o6 by (auto simp: steps less_Suc_eq)
        next
          case None
          note n3 = None
          show ?thesis
          proof (cases o4)
            case (Some e)
            note s4 = Some
            from a4 [rule_format, OF n1 n2 d n3 s4] have "new = [c0, c1, c2, c3, c4] \<and> r = Some (Error (msg c4 e))" .
            then show ?thesis
              using n1 n2 d n3 s4 o1 o2 o3 o4 o5 o6 by (auto simp: steps less_Suc_eq)
          next
            case None
            note n4 = None
            show ?thesis
            proof (cases o5)
              case (Some e)
              note s5 = Some
              from a5 [rule_format, OF n1 n2 d n3 n4 s5] have "new = [c0, c1, c2, c3, c4, c5] \<and> r = Some (Error (msg c5 e))" .
              then show ?thesis
                using n1 n2 d n3 n4 s5 o1 o2 o3 o4 o5 o6 by (auto simp: steps less_Suc_eq)
            next
              case None
              note n5 = None
              show ?thesis
              proof (cases o6)
                case (Some e)
                note s6 = Some
                from a6 [rule_format, OF n1 n2 d n3 n4 n5 s6] have "new = [c0, c1, c2, c3, c4, c5, c6] \<and> r = Some (Error (msg c6 e))" .
                then show ?thesis
                  using n1 n2 d n3 n4 n5 s6 o1 o2 o3 o4 o5 o6 by (auto simp: steps less_Suc_eq)
              next
                case None
                note n6 = None
                from a7 [rule_format, OF n1 n2 d n3 n4 n5 n6] have "new = [c0, c1, c2, c3, c4, c5, c6] \<and> r = None" .
                then show ?thesis
                  using n1 n2 d n3 n4 n5 n6 o1 o2 o3 o4 o5 o6 by (auto simp: steps less_Suc_eq)
              qed
            qed
          qed
        qed
      qed
    qed
  qed
qed

lemma inject_unparsed:
  assumes disk: "firstDiskFile domainDef = Inr disk"
    and c0: "c0 = genCmd os True [] [''--listen'', ''-a'', disk]"
    and bad: "\<forall>out. Start os (trace st) c0 = Started out \<longrightarrow>
                 length (Split out CHR '';'') \<noteq> 2 \<or>
                 length (Split (Split out CHR '';'' ! 0) CHR ''='') \<noteq> 2"
  shows "(\<exists>msg. snd (injectIgnitionByGuestfish os domainDef ignitionFile st) = Some (Error msg)) \<and>
         ((\<exists>e. Start os (trace st) c0 = StdoutPipeError e) \<longrightarrow>
            trace (fst (injectIgnitionByGuestfish os domainDef ignitionFile st)) = trace st) \<and>
         ((\<forall>e. Start os (trace st) c0 \<noteq> StdoutPipeError e) \<longrightarrow>
            trace (fst (injectIgnitionByGuestfish os domainDef ignitionFile st)) = trace st @ [c0])"
proof (cases "Start os (trace st) c0")
  case (StdoutPipeError e)
  then show ?thesis
    by (simp add: injectIgnitionByGuestfish_def disk startCmd_def orReturn_def Let_def flip: c0)
next
  case (StartError e)
  then show ?thesis
    by (simp add: injectIgnitionByGuestfish_def disk startCmd_def orReturn_def Let_def flip: c0)
next
  case (ReadError e)
  then show ?thesis
    by (simp add: injectIgnitionByGuestfish_def disk startCmd_def orReturn_def Let_def flip: c0)
next
  case (Started out)
  from bad [rule_format, OF Started] show ?thesis
  proof
    assume "length (Split out CHR '';'') \<noteq> 2"
    with Started show ?thesis
      by (simp add: injectIgnitionByGuestfish_def disk startCmd_def orReturn_def Let_def flip: c0)
  next
    assume "length (Split (Split out CHR '';'' ! 0) CHR ''='') \<noteq> 2"
    with Started show ?thesis
      by (simp add: injectIgnitionByGuestfish_def disk startCmd_def orReturn_def Let_def flip: c0)
  qed
qed

text \<open>
  C6. In ignition.go \<^verbatim>\<open>injectIgnitionByGuestfish\<close> runs listen, run, filesystem lookup,
  mount, upload, umount-all and exit in this order. The commands it launches are an initial
  part of that sequence, each spelled out with its path, argument vector and environment.
  The listen command is launched unless its output pipe cannot be made, and run is launched
  once the handle has parsed; when the handle does not parse nothing follows listen and an
  error is returned. Each command after listen that succeeds is followed by the next one
  (after the lookup only when its trimmed answer is not empty), so no step is left out. A
  command after listen that fails is the last one launched, and the error returned is
  \<^verbatim>\<open>error running command '<path> <arguments>': <cause>\<close> for that command. No error is
  returned exactly when all seven commands were launched and exit succeeded, and an empty
  lookup answer ends the session after the lookup with the error of the missing boot
  filesystem.
\<close>

theorem C6_session_steps_in_fixed_order:
  assumes disk: "firstDiskFile domainDef = Inr disk"
    and c0: "c0 = \<lparr>Path = LookPath os ''sudo'',
                 Args = [''sudo'', ''--preserve-env'', ''guestfish'', ''--listen'', ''-a'', disk],
                 Env = None\<rparr>"
    and parsed: "parsed \<longleftrightarrow>
                   (\<exists>out. Start os (trace st0) c0 = Started out \<and>
                          length (Split out CHR '';'') = 2 \<and>
                          length (Split (Split out CHR '';'' ! 0) CHR ''='') = 2)"
    and env: "env = (case Start os (trace st0) c0 of
                       Started out \<Rightarrow> [Split out CHR '';'' ! 0]
                     | _ \<Rightarrow> [])"
    and c1: "c1 = \<lparr>Path = LookPath os ''sudo'',
                 Args = [''sudo'', ''--preserve-env'', ''guestfish'', ''--remote'', ''--'', ''run''],
                 Env = Some env\<rparr>"
    and c2: "c2 = \<lparr>Path = LookPath os ''sudo'',
                 Args = [''sudo'', ''--preserve-env'', ''guestfish'', ''--remote'', ''--'', ''findfs-label'', ''boot''],
                 Env = Some env\<rparr>"
    and c3: "c3 = \<lparr>Path = LookPath os ''sudo'',
                 Args = [''sudo'', ''--preserve-env'', ''guestfish'', ''--remote'', ''--'', ''mount'', dev, ''/''],
                 Env = Some env\<rparr>"
    and c4: "c4 = \<lparr>Path = LookPath os ''sudo'',
                 Args = [''sudo'', ''--preserve-env'', ''guestfish'', ''--remote'', ''--'', ''upload'', ignitionFile, ''/ignition/config.ign''],
                 Env = Some env\<rparr>"
    and c5: "c5 = \<lparr>Path = LookPath os ''sudo'',
                 Args = [''sudo'', ''--preserve-env'', ''guestfish'', ''--remote'', ''--'', ''umount-all''],
                 Env = Some env\<rparr>"
    and c6: "c6 = \<lparr>Path = LookPath os ''sudo'',
                 Args = [''sudo'', ''--preserve-env'', ''guestfish'', ''--remote'', ''--'', ''exit''],
                 Env = Some env\<rparr>"
    and dev: "dev = TrimSpace (fst (CombinedOutput os (trace st0 @ [c0, c1]) c2))"
    and steps: "steps = [c0, c1, c2, c3, c4, c5, c6]"
  shows "\<exists>new.
      trace (fst (injectIgnitionByGuestfish os domainDef ignitionFile st0)) = trace st0 @ new \<and>
      prefix new steps \<and>
      ((\<forall>e. Start os (trace st0) c0 \<noteq> StdoutPipeError e) \<longrightarrow> 1 \<le> length new) \<and>
      (\<not> parsed \<longrightarrow>
         length new \<le> 1 \<and> (\<exists>msg. snd (injectIgnitionByGuestfish os domainDef ignitionFile st0) = Some (Error msg))) \<and>
      (parsed \<longrightarrow> 2 \<le> length new) \<and>
      (\<forall>k. 0 < k \<and> k < 6 \<and> k < length new \<and>
           snd (CombinedOutput os (trace st0 @ take k steps) (steps ! k)) = None \<and>
           (k = 2 \<longrightarrow> dev \<noteq> []) \<longrightarrow> Suc k < length new) \<and>
      (\<forall>k e. 0 < k \<and> k < length new \<and>
           snd (CombinedOutput os (trace st0 @ take k steps) (steps ! k)) = Some e \<longrightarrow>
           Suc k = length new \<and>
           snd (injectIgnitionByGuestfish os domainDef ignitionFile st0) =
             Some (Error (''error running command '' @ [CHR 0x27] @ Path (steps ! k) @ '' '' @
                   Join (Args (steps ! k)) '' '' @ [CHR 0x27] @ '': '' @ e))) \<and>
      (snd (injectIgnitionByGuestfish os domainDef ignitionFile st0) = None \<longleftrightarrow>
           length new = 7 \<and> snd (CombinedOutput os (trace st0 @ take 6 steps) (steps ! 6)) = None) \<and>
      (2 < length new \<and> snd (CombinedOutput os (trace st0 @ take 2 steps) (steps ! 2)) = None \<and> dev = [] \<longrightarrow>
           length new = 3 \<and>
           snd (injectIgnitionByGuestfish os domainDef ignitionFile st0) = Some (Error ''failed to get the boot filesystem''))"
proof -
  let ?R = "injectIgnitionByGuestfish os domainDef ignitionFile st0"
  have g0: "c0 = genCmd os True [] [''--listen'', ''-a'', disk]"
    by (simp add: c0 genCmd_sudo)
  define new where "new = drop (length (trace st0)) (trace (fst ?R))"
  define r where "r = snd ?R"
  show ?thesis
  proof (cases parsed)
    case False
    with parsed have bad: "\<forall>out. Start os (trace st0) c0 = Started out \<longrightarrow>
                 length (Split out CHR '';'') \<noteq> 2 \<or>
                 length (Split (Split out CHR '';'' ! 0) CHR ''='') \<noteq> 2"
      by blast
    note U = inject_unparsed [where st = st0 and ignitionFile = ignitionFile, OF disk g0 bad]
    from U have err: "\<exists>msg. r = Some (Error msg)"
      unfolding r_def by (rule conjunct1)
    then have rn: "r \<noteq> None" by (elim exE) simp
    from U have pipe: "(\<exists>e. Start os (trace st0) c0 = StdoutPipeError e) \<longrightarrow> trace (fst ?R) = trace st0"
      and nopipe: "(\<forall>e. Start os (trace st0) c0 \<noteq> StdoutPipeError e) \<longrightarrow> trace (fst ?R) = trace st0 @ [c0]"
      by (rule conjunct2 [THEN conjunct1], rule conjunct2 [THEN conjunct2])
    have tr: "trace (fst ?R) = trace st0 @ new"
      and short: "length new \<le> 1"
      and pre: "prefix new steps"
      and launched: "(\<forall>e. Start os (trace st0) c0 \<noteq> StdoutPipeError e) \<longrightarrow> 1 \<le> length new"
    proof -
      show "trace (fst ?R) = trace st0 @ new"
        using pipe nopipe unfolding new_def by (cases "\<exists>e. Start os (trace st0) c0 = StdoutPipeError e") simp_all
      show "length new \<le> 1"
        using pipe nopipe unfolding new_def by (cases "\<exists>e. Start os (trace st0) c0 = StdoutPipeError e") simp_all
      show "prefix new steps"
        using pipe nopipe unfolding new_def steps
        by (cases "\<exists>e. Start os (trace st0) c0 = StdoutPipeError e") simp_all
      show "(\<forall>e. Start os (trace st0) c0 \<noteq> StdoutPipeError e) \<longrightarrow> 1 \<le> length new"
        using nopipe unfolding new_def by simp
    qed
    have "trace (fst ?R) = trace st0 @ new \<and>
      prefix new steps \<and>
      ((\<forall>e. Start os (trace st0) c0 \<noteq> StdoutPipeError e) \<longrightarrow> 1 \<le> length new) \<and>
      (\<not> parsed \<longrightarrow> length new \<le> 1 \<and> (\<exists>msg. r = Some (Error msg))) \<and>
      (parsed \<longrightarrow> 2 \<le> length new) \<and>
      (\<forall>k. 0 < k \<and> k < 6 \<and> k < length new \<and>
           snd (CombinedOutput os (trace st0 @ take k steps) (steps ! k)) = None \<and>
           (k = 2 \<longrightarrow> dev \<noteq> []) \<longrightarrow> Suc k < length new) \<and>
      (\<forall>k e. 0 < k \<and> k < length new \<and>
           snd (CombinedOutput os (trace st0 @ take k steps) (steps ! k)) = Some e \<longrightarrow>
           Suc k = length new \<and>
           r = Some (Error (runError (Path (steps ! k)) (Args (steps ! k)) e))) \<and>
      (r = None \<longleftrightarrow>
           length new = 7 \<and> snd (CombinedOutput os (trace st0 @ take 6 steps) (steps ! 6)) = None) \<and>
      (2 < length new \<and> snd (CombinedOutput os (trace st0 @ take 2 steps) (steps ! 2)) = None \<and> dev = [] \<longrightarrow>
           length new = 3 \<and> r = Some (Error ''failed to get the boot filesystem''))"
      using tr short pre launched err rn False by auto
    then show ?thesis
      unfolding r_def runError_explicit by (intro exI)
  next
    case True
    with parsed obtain out where started: "Start os (trace st0) c0 = Started out"
      and semi: "length (Split out CHR '';'') = 2"
      and eq: "length (Split (Split out CHR '';'' ! 0) CHR ''='') = 2"
      by (elim iffE impE exE conjE) simp_all
    have env': "env = [Split out CHR '';'' ! 0]"
      by (simp add: env started)
    have ne: "env \<noteq> []" by (simp add: env')
    have g1: "c1 = genCmd os True env [''--remote'', ''--'', ''run'']"
      by (simp add: c1 genCmd_sudo ne)
    have g2: "c2 = genCmd os True env [''--remote'', ''--'', ''findfs-label'', ''boot'']"
      by (simp add: c2 genCmd_sudo ne)
    have g3: "c3 = genCmd os True env [''--remote'', ''--'', ''mount'', dev, ''/'']"
      by (simp add: c3 genCmd_sudo ne)
    have g4: "c4 = genCmd os True env [''--remote'', ''--'', ''upload'', ignitionFile, ''/ignition/config.ign'']"
      by (simp add: c4 genCmd_sudo ne)
    have g5: "c5 = genCmd os True env [''--remote'', ''--'', ''umount-all'']"
      by (simp add: c5 genCmd_sudo ne)
    have g6: "c6 = genCmd os True env [''--remote'', ''--'', ''exit'']"
      by (simp add: c6 genCmd_sudo ne)
    define x1 where "x1 = fst (CombinedOutput os (trace st0 @ [c0]) c1)"
    define o1 where "o1 = snd (CombinedOutput os (trace st0 @ [c0]) c1)"
    have r1: "CombinedOutput os (trace st0 @ [c0]) c1 = (x1, o1)"
      by (simp add: x1_def o1_def)
    define x2 where "x2 = fst (CombinedOutput os (trace st0 @ [c0, c1]) c2)"
    define o2 where "o2 = snd (CombinedOutput os (trace st0 @ [c0, c1]) c2)"
    have r2: "CombinedOutput os (trace st0 @ [c0, c1]) c2 = (x2, o2)"
      by (simp add: x2_def o2_def)
    define x3 where "x3 = fst (CombinedOutput os (trace st0 @ [c0, c1, c2]) c3)"
    define o3 where "o3 = snd (CombinedOutput os (trace st0 @ [c0, c1, c2]) c3)"
    have r3: "CombinedOutput os (trace st0 @ [c0, c1, c2]) c3 = (x3, o3)"
      by (simp add: x3_def o3_def)
    define x4 where "x4 = fst (CombinedOutput os (trace st0 @ [c0, c1, c2, c3]) c4)"
    define o4 where "o4 = snd (CombinedOutput os (trace st0 @ [c0, c1, c2, c3]) c4)"
    have r4: "CombinedOutput os (trace st0 @ [c0, c1, c2, c3]) c4 = (x4, o4)"
      by (simp add: x4_def o4_def)
    define x5 where "x5 = fst (CombinedOutput os (trace st0 @ [c0, c1, c2, c3, c4]) c5)"
    define o5 where "o5 = snd (CombinedOutput os (trace st0 @ [c0, c1, c2, c3, c4]) c5)"
    have r5: "CombinedOutput os (trace st0 @ [c0, c1, c2, c3, c4]) c5 = (x5, o5)"
      by (simp add: x5_def o5_def)
    define x6 where "x6 = fst (CombinedOutput os (trace st0 @ [c0, c1, c2, c3, c4, c5]) c6)"
    define o6 where "o6 = snd (CombinedOutput os (trace st0 @ [c0, c1, c2, c3, c4, c5]) c6)"
    have r6: "CombinedOutput os (trace st0 @ [c0, c1, c2, c3, c4, c5]) c6 = (x6, o6)"
      by (simp add: x6_def o6_def)
    have dev': "dev = TrimSpace x2" by (simp add: dev x2_def)
    note P = inject_paths [OF disk started semi eq env' g0 g1 g2 g3 g4 g5 g6 r1 r2 r3 r4 r5 r6 dev']
    have a1: "\<forall>e. o1 = Some e \<longrightarrow>
        new = [c0, c1] \<and> r = Some (Error (runError (Path c1) (Args c1) e))"
      using P(1) by (simp add: new_def r_def)
    have a2: "\<forall>e. o1 = None \<longrightarrow> o2 = Some e \<longrightarrow>
        new = [c0, c1, c2] \<and> r = Some (Error (runError (Path c2) (Args c2) e))"
      using P(2) by (simp add: new_def r_def)
    have a3: "\<forall>e. o1 = None \<longrightarrow> o2 = None \<longrightarrow> dev \<noteq> [] \<longrightarrow> o3 = Some e \<longrightarrow>
        new = [c0, c1, c2, c3] \<and> r = Some (Error (runError (Path c3) (Args c3) e))"
      using P(3) by (simp add: new_def r_def)
    have a4: "\<forall>e. o1 = None \<longrightarrow> o2 = None \<longrightarrow> dev \<noteq> [] \<longrightarrow> o3 = None \<longrightarrow> o4 = Some e \<longrightarrow>
        new = [c0, c1, c2, c3, c4] \<and> r = Some (Error (runError (Path c4) (Args c4) e))"
      using P(4) by (simp add: new_def r_def)
    have a5: "\<forall>e. o1 = None \<longrightarrow> o2 = None \<longrightarrow> dev \<noteq> [] \<longrightarrow> o3 = None \<longrightarrow> o4 = None \<longrightarrow> o5 = Some e \<longrightarrow>
        new = [c0, c1, c2, c3, c4, c5] \<and> r = Some (Error (runError (Path c5) (Args c5) e))"
      using P(5) by (simp add: new_def r_def)
    have a6: "\<forall>e. o1 = None \<longrightarrow> o2 = None \<longrightarrow> dev \<noteq> [] \<longrightarrow> o3 = None \<longrightarrow> o4 = None \<longrightarrow> o5 = None \<longrightarrow> o6 = Some e \<longrightarrow>
        new = [c0, c1, c2, c3, c4, c5, c6] \<and> r = Some (Error (runError (Path c6) (Args c6) e))"
      using P(6) by (simp add: new_def r_def)
    have a0: "o1 = None \<longrightarrow> o2 = None \<longrightarrow> dev = [] \<longrightarrow>
        new = [c0, c1, c2] \<and> r = Some (Error ''failed to get the boot filesystem'')"
      using P(7) by (simp add: new_def r_def)
    have a7: "o1 = None \<longrightarrow> o2 = None \<longrightarrow> dev \<noteq> [] \<longrightarrow> o3 = None \<longrightarrow> o4 = None \<longrightarrow> o5 = None \<longrightarrow> o6 = None \<longrightarrow>
        new = [c0, c1, c2, c3, c4, c5, c6] \<and> r = None"
      using P(8) by (simp add: new_def r_def)
    note C = session_clauses [where msg = "\<lambda>c e. runError (Path c) (Args c) e"
                and h = "trace st0",
                OF steps o1_def o2_def o3_def o4_def o5_def o6_def a1 a2 a3 a4 a5 a6 a0 a7]
    have "runsInOrder os (st0\<lparr>trace := trace st0 @ [c0]\<rparr>) [c1, c2, c3, c4, c5, c6] ?R"
      unfolding g3 g4 g5 g6
      by (rule inject_after_listen [OF disk started [unfolded g0] semi eq env' g0 g1 g2 dev])
    then obtain rest where "trace (fst ?R) = trace (st0\<lparr>trace := trace st0 @ [c0]\<rparr>) @ rest"
      unfolding runsInOrder_def by (elim exE conjE)
    then have tr: "trace (fst ?R) = trace st0 @ new"
      by (simp add: new_def)
    from C have two: "2 \<le> length new" by (rule conjunct2 [THEN conjunct1])
    then have one: "1 \<le> length new" by simp
    have "trace (fst ?R) = trace st0 @ new \<and>
      prefix new steps \<and>
      ((\<forall>e. Start os (trace st0) c0 \<noteq> StdoutPipeError e) \<longrightarrow> 1 \<le> length new) \<and>
      (\<not> parsed \<longrightarrow> length new \<le> 1 \<and> (\<exists>msg. r = Some (Error msg))) \<and>
      (parsed \<longrightarrow> 2 \<le> length new) \<and>
      (\<forall>k. 0 < k \<and> k < 6 \<and> k < length new \<and>
           snd (CombinedOutput os (trace st0 @ take k steps) (steps ! k)) = None \<and>
           (k = 2 \<longrightarrow> dev \<noteq> []) \<longrightarrow> Suc k < length new) \<and>
      (\<forall>k e. 0 < k \<and> k < length new \<and>
           snd (CombinedOutput os (trace st0 @ take k steps) (steps ! k)) = Some e \<longrightarrow>
           Suc k = length new \<and>
           r = Some (Error (runError (Path (steps ! k)) (Args (steps ! k)) e))) \<and>
      (r = None \<longleftrightarrow>
           length new = 7 \<and> snd (CombinedOutput os (trace st0 @ take 6 steps) (steps ! 6)) = None) \<and>
      (2 < length new \<and> snd (CombinedOutput os (trace st0 @ take 2 steps) (steps ! 2)) = None \<and> dev = [] \<longrightarrow>
           length new = 3 \<and> r = Some (Error ''failed to get the boot filesystem''))"
    proof (intro conjI)
      show "trace (fst ?R) = trace st0 @ new" by (rule tr)
      show "prefix new steps" using C by (rule conjunct1)
      show "(\<forall>e. Start os (trace st0) c0 \<noteq> StdoutPipeError e) \<longrightarrow> 1 \<le> length new"
        using one by simp
      show "\<not> parsed \<longrightarrow> length new \<le> 1 \<and> (\<exists>msg. r = Some (Error msg))"
        using True by simp
      show "parsed \<longrightarrow> 2 \<le> length new" using two by simp
    qed (rule C [THEN conjunct2, THEN conjunct2, THEN conjunct1]
              C [THEN conjunct2, THEN conjunct2, THEN conjunct2, THEN conjunct1]
              C [THEN conjunct2, THEN conjunct2, THEN conjunct2, THEN conjunct2, THEN conjunct1]
              C [THEN conjunct2, THEN conjunct2, THEN conjunct2, THEN conjunct2, THEN conjunct2])+
    then show ?thesis
      unfolding r_def runError_explicit by (intro exI)
  qed
qed

theorem C6_session_steps_witness:
  "firstDiskFile exampleDomain = Inr ''/var/lib/img/m0'' \<and>
   trace (fst (injectIgnitionByGuestfish (failingOS ''GUESTFISH_PID=4513; export GUESTFISH_PID'' ''/dev/sda1'' ''mount'') exampleDomain ''/tmp/ign0'' freshProc)) =
     [\<lparr>Path = ''/usr/bin/sudo'',
       Args = [''sudo'', ''--preserve-env'', ''guestfish'', ''--listen'', ''-a'', ''/var/lib/img/m0''],
       Env = None\<rparr>,
      \<lparr>Path = ''/usr/bin/sudo'',
       Args = [''sudo'', ''--preserve-env'', ''guestfish'', ''--remote'', ''--'', ''run''],
       Env = Some [''GUESTFISH_PID=4513'']\<rparr>,
      \<lparr>Path = ''/usr/bin/sudo'',
       Args = [''sudo'', ''--preserve-env'', ''guestfish'', ''--remote'', ''--'', ''findfs-label'', ''boot''],
       Env = Some [''GUESTFISH_PID=4513'']\<rparr>,
      \<lparr>Path = ''/usr/bin/sudo'',
       Args = [''sudo'', ''--preserve-env'', ''guestfish'', ''--remote'', ''--'', ''mount'', ''/dev/sda1'', ''/''],
       Env = Some [''GUESTFISH_PID=4513'']\<rparr>] \<and>
   snd (injectIgnitionByGuestfish (failingOS ''GUESTFISH_PID=4513; export GUESTFISH_PID'' ''/dev/sda1'' ''mount'') exampleDomain ''/tmp/ign0'' freshProc) =
     Some (Error (''error running command '' @ [CHR 0x27] @
        ''/usr/bin/sudo sudo --preserve-env guestfish --remote -- mount /dev/sda1 /'' @ [CHR 0x27] @
        '': exit status 1''))"
proof -
  let ?os = "failingOS ''GUESTFISH_PID=4513; export GUESTFISH_PID'' ''/dev/sda1'' ''mount''"
  let ?R = "injectIgnitionByGuestfish ?os exampleDomain ''/tmp/ign0'' freshProc"
  let ?env = "[''GUESTFISH_PID=4513'']"
  define c0 :: cmd where "c0 = \<lparr>Path = ''/usr/bin/sudo'',
       Args = [''sudo'', ''--preserve-env'', ''guestfish'', ''--listen'', ''-a'', ''/var/lib/img/m0''],
       Env = None\<rparr>"
  define c1 :: cmd where "c1 = \<lparr>Path = ''/usr/bin/sudo'',
       Args = [''sudo'', ''--preserve-env'', ''guestfish'', ''--remote'', ''--'', ''run''],
       Env = Some [''GUESTFISH_PID=4513'']\<rparr>"
  define c2 :: cmd where "c2 = \<lparr>Path = ''/usr/bin/sudo'',
       Args = [''sudo'', ''--preserve-env'', ''guestfish'', ''--remote'', ''--'', ''findfs-label'', ''boot''],
       Env = Some [''GUESTFISH_PID=4513'']\<rparr>"
  define c3 :: cmd where "c3 = \<lparr>Path = ''/usr/bin/sudo'',
       Args = [''sudo'', ''--preserve-env'', ''guestfish'', ''--remote'', ''--'', ''mount'', ''/dev/sda1'', ''/''],
       Env = Some [''GUESTFISH_PID=4513'']\<rparr>"
  define c4 :: cmd where "c4 = \<lparr>Path = ''/usr/bin/sudo'',
       Args = [''sudo'', ''--preserve-env'', ''guestfish'', ''--remote'', ''--'', ''upload'', ''/tmp/ign0'', ''/ignition/config.ign''],
       Env = Some [''GUESTFISH_PID=4513'']\<rparr>"
  define c5 :: cmd where "c5 = \<lparr>Path = ''/usr/bin/sudo'',
       Args = [''sudo'', ''--preserve-env'', ''guestfish'', ''--remote'', ''--'', ''umount-all''],
       Env = Some [''GUESTFISH_PID=4513'']\<rparr>"
  define c6 :: cmd where "c6 = \<lparr>Path = ''/usr/bin/sudo'',
       Args = [''sudo'', ''--preserve-env'', ''guestfish'', ''--remote'', ''--'', ''exit''],
       Env = Some [''GUESTFISH_PID=4513'']\<rparr>"
  define steps where "steps = [c0, c1, c2, c3, c4, c5, c6]"
  have disk: "firstDiskFile exampleDomain = Inr ''/var/lib/img/m0''"
    by (simp add: firstDiskFile_def exampleDomain_def)
  have lp: "LookPath ?os ''sudo'' = ''/usr/bin/sudo''"
    by (simp add: failingOS_def)
  have h0: "c0 = \<lparr>Path = LookPath ?os ''sudo'',
                 Args = [''sudo'', ''--preserve-env'', ''guestfish'', ''--listen'', ''-a'', ''/var/lib/img/m0''],
                 Env = None\<rparr>"
    by (simp add: c0_def lp)
  have started: "Start ?os (trace freshProc) c0 = Started ''GUESTFISH_PID=4513; export GUESTFISH_PID''"
    by (simp add: failingOS_def)
  have parsed: "True \<longleftrightarrow>
                   (\<exists>out. Start ?os (trace freshProc) c0 = Started out \<and>
                          length (Split out CHR '';'') = 2 \<and>
                          length (Split (Split out CHR '';'' ! 0) CHR ''='') = 2)"
    by (simp add: started)
  have env: "?env = (case Start ?os (trace freshProc) c0 of
                       Started out \<Rightarrow> [Split out CHR '';'' ! 0]
                     | _ \<Rightarrow> [])"
    by (simp add: started)
  have h1: "c1 = \<lparr>Path = LookPath ?os ''sudo'',
                 Args = [''sudo'', ''--preserve-env'', ''guestfish'', ''--remote'', ''--'', ''run''],
                 Env = Some ?env\<rparr>"
    by (simp add: c1_def lp)
  have h2: "c2 = \<lparr>Path = LookPath ?os ''sudo'',
                 Args = [''sudo'', ''--preserve-env'', ''guestfish'', ''--remote'', ''--'', ''findfs-label'', ''boot''],
                 Env = Some ?env\<rparr>"
    by (simp add: c2_def lp)
  have h3: "c3 = \<lparr>Path = LookPath ?os ''sudo'',
                 Args = [''sudo'', ''--preserve-env'', ''guestfish'', ''--remote'', ''--'', ''mount'', ''/dev/sda1'', ''/''],
                 Env = Some ?env\<rparr>"
    by (simp add: c3_def lp)
  have h4: "c4 = \<lparr>Path = LookPath ?os ''sudo'',
                 Args = [''sudo'', ''--preserve-env'', ''guestfish'', ''--remote'', ''--'', ''upload'', ''/tmp/ign0'', ''/ignition/config.ign''],
                 Env = Some ?env\<rparr>"
    by (simp add: c4_def lp)
  have h5: "c5 = \<lparr>Path = LookPath ?os ''sudo'',
                 Args = [''sudo'', ''--preserve-env'', ''guestfish'', ''--remote'', ''--'', ''umount-all''],
                 Env = Some ?env\<rparr>"
    by (simp add: c5_def lp)
  have h6: "c6 = \<lparr>Path = LookPath ?os ''sudo'',
                 Args = [''sudo'', ''--preserve-env'', ''guestfish'', ''--remote'', ''--'', ''exit''],
                 Env = Some ?env\<rparr>"
    by (simp add: c6_def lp)
  have dev: "''/dev/sda1'' = TrimSpace (fst (CombinedOutput ?os (trace freshProc @ [c0, c1]) c2))"
    by (simp add: failingOS_def c2_def TrimSpace_def spaceEncodings_def trimFront.simps)
  from C6_session_steps_in_fixed_order [OF disk h0 parsed env h1 h2 h3 h4 h5 h6 dev steps_def]
  obtain new where tr: "trace (fst ?R) = trace freshProc @ new"
    and pre: "prefix new steps"
    and two: "True \<longrightarrow> 2 \<le> length new"
    and prog: "\<forall>k. 0 < k \<and> k < 6 \<and> k < length new \<and>
           snd (CombinedOutput ?os (trace freshProc @ take k steps) (steps ! k)) = None \<and>
           (k = 2 \<longrightarrow> ''/dev/sda1'' \<noteq> []) \<longrightarrow> Suc k < length new"
    and fail: "\<forall>k e. 0 < k \<and> k < length new \<and>
           snd (CombinedOutput ?os (trace freshProc @ take k steps) (steps ! k)) = Some e \<longrightarrow>
           Suc k = length new \<and>
           snd ?R =
             Some (Error (''error running command '' @ [CHR 0x27] @ Path (steps ! k) @ '' '' @
                   Join (Args (steps ! k)) '' '' @ [CHR 0x27] @ '': '' @ e))"
    by (elim exE conjE)
  have s1: "snd (CombinedOutput ?os (trace freshProc @ take 1 steps) (steps ! 1)) = None"
    by (simp add: steps_def failingOS_def c1_def)
  have s2: "snd (CombinedOutput ?os (trace freshProc @ take 2 steps) (steps ! 2)) = None"
    by (simp add: steps_def failingOS_def c2_def)
  have f3: "snd (CombinedOutput ?os (trace freshProc @ take 3 steps) (steps ! 3)) = Some ''exit status 1''"
    by (simp add: steps_def failingOS_def c3_def)
  from two have l2: "1 < length new" by simp
  with prog [rule_format, of 1] s1 have l3: "2 < length new" by simp
  with prog [rule_format, of 2] s2 have l4: "3 < length new" by simp
  with fail [rule_format, of 3 "''exit status 1''"] f3
  have len: "length new = 4"
    and res: "snd ?R =
             Some (Error (''error running command '' @ [CHR 0x27] @ Path (steps ! 3) @ '' '' @
                   Join (Args (steps ! 3)) '' '' @ [CHR 0x27] @ '': '' @ ''exit status 1''))"
    by simp_all
  from pre obtain rest where "steps = new @ rest" by (rule prefixE)
  then have "take (length new) steps = new" by simp
  with len have new: "new = [c0, c1, c2, c3]" by (simp add: steps_def)
  have "trace (fst ?R) = [c0, c1, c2, c3]"
    using tr new by (simp add: freshProc_def)
  moreover have "snd ?R = Some (Error (''error running command '' @ [CHR 0x27] @
        ''/usr/bin/sudo sudo --preserve-env guestfish --remote -- mount /dev/sda1 /'' @ [CHR 0x27] @
        '': exit status 1''))"
    using res by (simp add: steps_def c3_def)
  ultimately show ?thesis
    using disk unfolding c0_def c1_def c2_def c3_def by (intro conjI)
qed

subsection \<open>The first disk of the domain\<close>

text \<open>
  C9. \<^verbatim>\<open>injectIgnitionByGuestfish\<close> reads \<^verbatim>\<open>Devices.Disks[0].Source.File.File\<close> with no
  guard, in both copies: for a domain whose disk list is empty the index is out of range,
  and for a first disk without a source, or with a source that is not a file, a nil pointer
  is dereferenced. In each case the function panics before any command is launched; no
  error is returned.
\<close>

theorem C9_first_disk_read_without_guard:
  assumes devs: "Devices domainDef = Some devs"
  shows "(Disks devs = [] \<longrightarrow>
            injectIgnitionByGuestfish os domainDef ignitionFile st0 =
              (st0, Some (Panic ''index out of range [0] with length 0'')) \<and>
            injectIgnitionByGuestfish_part000 os domainDef ignitionFile st0 =
              (st0, Some (Panic ''index out of range [0] with length 0''))) \<and>
         ((\<exists>disk rest. Disks devs = disk # rest \<and>
             (Source disk = None \<or> (\<exists>src. Source disk = Some src \<and> SourceFile src = None))) \<longrightarrow>
            injectIgnitionByGuestfish os domainDef ignitionFile st0 =
              (st0, Some (Panic ''invalid memory address or nil pointer dereference'')) \<and>
            injectIgnitionByGuestfish_part000 os domainDef ignitionFile st0 =
              (st0, Some (Panic ''invalid memory address or nil pointer dereference'')))"
proof (intro conjI impI)
  assume "Disks devs = []"
  with devs have "firstDiskFile domainDef = Inl (Panic ''index out of range [0] with length 0'')"
    by (simp add: firstDiskFile_def)
  then show "injectIgnitionByGuestfish os domainDef ignitionFile st0 =
              (st0, Some (Panic ''index out of range [0] with length 0''))"
    and "injectIgnitionByGuestfish_part000 os domainDef ignitionFile st0 =
              (st0, Some (Panic ''index out of range [0] with length 0''))"
    by (simp_all add: injectIgnitionByGuestfish_def injectIgnitionByGuestfish_part000_def)
next
  assume "\<exists>disk rest. Disks devs = disk # rest \<and>
             (Source disk = None \<or> (\<exists>src. Source disk = Some src \<and> SourceFile src = None))"
  then obtain disk rest where d: "Disks devs = disk # rest"
    and s: "Source disk = None \<or> (\<exists>src. Source disk = Some src \<and> SourceFile src = None)"
    by (elim exE conjE)
  from s have "firstDiskFile domainDef = Inl (Panic ''invalid memory address or nil pointer dereference'')"
  proof
    assume "Source disk = None"
    with devs d show ?thesis by (simp add: firstDiskFile_def)
  next
    assume "\<exists>src. Source disk = Some src \<and> SourceFile src = None"
    then obtain src where "Source disk = Some src" "SourceFile src = None" by (elim exE conjE)
    with devs d show ?thesis by (simp add: firstDiskFile_def)
  qed
  then show "injectIgnitionByGuestfish os domainDef ignitionFile st0 =
              (st0, Some (Panic ''invalid memory address or nil pointer dereference''))"
    and "injectIgnitionByGuestfish_part000 os domainDef ignitionFile st0 =
              (st0, Some (Panic ''invalid memory address or nil pointer dereference''))"
    by (simp_all add: injectIgnitionByGuestfish_def injectIgnitionByGuestfish_part000_def)
qed

theorem C9_first_disk_witness:
  "(injectIgnitionByGuestfish (exampleOS [] []) disklessDomain ''/tmp/ign0'' freshProc =
      (freshProc, Some (Panic ''index out of range [0] with length 0'')) \<and>
    injectIgnitionByGuestfish_part000 (exampleOS [] []) disklessDomain ''/tmp/ign0'' freshProc =
      (freshProc, Some (Panic ''index out of range [0] with length 0''))) \<and>
   (injectIgnitionByGuestfish (exampleOS [] []) sourcelessDomain ''/tmp/ign0'' freshProc =
      (freshProc, Some (Panic ''invalid memory address or nil pointer dereference'')) \<and>
    injectIgnitionByGuestfish_part000 (exampleOS [] []) sourcelessDomain ''/tmp/ign0'' freshProc =
      (freshProc, Some (Panic ''invalid memory address or nil pointer dereference'')))"
  using C9_first_disk_read_without_guard
          [of disklessDomain "\<lparr>Disks = []\<rparr>" "exampleOS [] []" "''/tmp/ign0''" freshProc]
        C9_first_disk_read_without_guard
          [of sourcelessDomain "\<lparr>Disks = [\<lparr>Source = None\<rparr>]\<rparr>" "exampleOS [] []" "''/tmp/ign0''" freshProc]
  by (simp add: disklessDomain_def sourcelessDomain_def)

subsection \<open>What ignition.go does with the handle, the environment and the lookup\<close>

text \<open>
  The copy in ignition.go never touches the environment of the provisioning process, hands
  the captured \<^verbatim>\<open>KEY=VALUE\<close> entry to every command after the listen step, returns an error
  right after the listen step for a handle it cannot parse, and mounts exactly the trimmed
  answer of the lookup, or returns an error without mounting when that answer is empty.
\<close>

lemma Env_genCmd: "env \<noteq> [] \<Longrightarrow> Env (genCmd os r env args) = Some env"
  by (simp add: genCmd_def Command_def Let_def)


lemma extends_done: "prefix (trace st') (trace (fst (st', r)))"
  by simp

lemma launches_first:
  assumes "\<And>st' out. prefix (trace st') (trace (fst (k st' out)))"
  shows "prefix (trace st @ [genCmd os r env args])
           (trace (fst (orReturn (execCmd os r env args st) k)))"
proof (cases "snd (CombinedOutput os (trace st) (genCmd os r env args))")
  case None
  then have "orReturn (execCmd os r env args st) k =
      k (st\<lparr>trace := trace st @ [genCmd os r env args]\<rparr>)
        (fst (CombinedOutput os (trace st) (genCmd os r env args)))"
    by (simp add: orReturn_def execCmd_eq)
  with assms [of "st\<lparr>trace := trace st @ [genCmd os r env args]\<rparr>"] show ?thesis
    by simp
next
  case (Some e)
  then show ?thesis
    by (simp add: orReturn_def execCmd_eq)
qed

lemma extends_step:
  assumes "\<And>st' out. prefix (trace st') (trace (fst (k st' out)))"
  shows "prefix (trace st) (trace (fst (orReturn (execCmd os r env args st) k)))"
  using launches_first [OF assms, of st os r env args]
  by (rule prefix_order.trans [rotated]) simp

lemma ignition_go_rejects_malformed_handle:
  assumes disk: "firstDiskFile domainDef = Inr disk"
    and started: "Start os (trace st0) (genCmd os True [] [''--listen'', ''-a'', disk]) = Started out"
    and bad: "length (Split out CHR '';'') \<noteq> 2 \<or>
              length (Split (Split out CHR '';'' ! 0) CHR ''='') \<noteq> 2"
  shows "injectIgnitionByGuestfish os domainDef ignitionFile st0 =
           (st0\<lparr>trace := trace st0 @ [genCmd os True [] [''--listen'', ''-a'', disk]]\<rparr>,
            Some (Error ((if length (Split out CHR '';'') \<noteq> 2
                          then ''Invalid output when starting guestfish: ''
                          else ''failed to get the guestfish PID from '') @ out)))"
  using bad
proof
  assume "length (Split out CHR '';'') \<noteq> 2"
  then show ?thesis
    by (simp add: injectIgnitionByGuestfish_def disk started startCmd_def orReturn_def Let_def)
next
  assume "length (Split (Split out CHR '';'' ! 0) CHR ''='') \<noteq> 2"
  then show ?thesis
    by (simp add: injectIgnitionByGuestfish_def disk started startCmd_def orReturn_def Let_def)
qed

lemma ignition_go_lookup_decides_mount:
  assumes disk: "firstDiskFile domainDef = Inr disk"
    and started: "Start os (trace st0) c0 = Started out"
    and semi: "length (Split out CHR '';'') = 2"
    and eq: "length (Split (Split out CHR '';'' ! 0) CHR ''='') = 2"
    and env: "env = [Split out CHR '';'' ! 0]"
    and c0: "c0 = genCmd os True [] [''--listen'', ''-a'', disk]"
    and c1: "c1 = genCmd os True env [''--remote'', ''--'', ''run'']"
    and c2: "c2 = genCmd os True env [''--remote'', ''--'', ''findfs-label'', ''boot'']"
    and run: "CombinedOutput os (trace st0 @ [c0]) c1 = (runOut, None)"
    and lookup: "CombinedOutput os (trace st0 @ [c0, c1]) c2 = (lookupOut, None)"
  shows "TrimSpace lookupOut = [] \<Longrightarrow>
           injectIgnitionByGuestfish os domainDef ignitionFile st0 =
             (st0\<lparr>trace := trace st0 @ [c0, c1, c2]\<rparr>, Some (Error ''failed to get the boot filesystem''))"
    and "TrimSpace lookupOut \<noteq> [] \<Longrightarrow>
           prefix (trace st0 @ [c0, c1, c2,
                     genCmd os True env [''--remote'', ''--'', ''mount'', TrimSpace lookupOut, ''/'']])
                  (trace (fst (injectIgnitionByGuestfish os domainDef ignitionFile st0)))"
proof -
  have start: "startCmd os True [] [''--listen'', ''-a'', disk] st0 =
                 (st0\<lparr>trace := trace st0 @ [c0]\<rparr>, out, None)"
    using started by (simp add: startCmd_def c0 Let_def)
  have r1: "execCmd os True env [''--remote'', ''--'', ''run''] (st0\<lparr>trace := trace st0 @ [c0]\<rparr>) =
              (st0\<lparr>trace := trace st0 @ [c0, c1]\<rparr>, runOut, None)"
    using run by (simp add: execCmd_eq c1)
  have r2: "execCmd os True env [''--remote'', ''--'', ''findfs-label'', ''boot'']
              (st0\<lparr>trace := trace st0 @ [c0, c1]\<rparr>) =
              (st0\<lparr>trace := trace st0 @ [c0, c1, c2]\<rparr>, lookupOut, None)"
    using lookup by (simp add: execCmd_eq c1 c2)
  show "injectIgnitionByGuestfish os domainDef ignitionFile st0 =
             (st0\<lparr>trace := trace st0 @ [c0, c1, c2]\<rparr>, Some (Error ''failed to get the boot filesystem''))"
    if "TrimSpace lookupOut = []"
    unfolding injectIgnitionByGuestfish_def
    by (simp add: disk start semi eq r1 r2 that Let_def orReturn_def [of "(_, _, None)"] flip: env)
  show "prefix (trace st0 @ [c0, c1, c2,
                     genCmd os True env [''--remote'', ''--'', ''mount'', TrimSpace lookupOut, ''/'']])
                  (trace (fst (injectIgnitionByGuestfish os domainDef ignitionFile st0)))"
    if "TrimSpace lookupOut \<noteq> []"
  proof -
    have "prefix (trace (st0\<lparr>trace := trace st0 @ [c0, c1, c2]\<rparr>) @
                     [genCmd os True env [''--remote'', ''--'', ''mount'', TrimSpace lookupOut, ''/'']])
                  (trace (fst (injectIgnitionByGuestfish os domainDef ignitionFile st0)))"
      unfolding injectIgnitionByGuestfish_def
      apply (simp only: disk sum.case start semi eq r1 r2 that Let_def orReturn_def [of "(_, _, None)"]
               prod.case option.case if_False if_True simp_thms list.size env [symmetric]
               length_0_conv)
      apply (intro launches_first extends_step extends_done)
      done
    then show ?thesis by simp
  qed
qed

lemma ignition_go_environ_unchanged:
  "environ (fst (injectIgnitionByGuestfish os domainDef ignitionFile st0)) = environ st0"
proof (cases "firstDiskFile domainDef")
  case (Inl p)
  then show ?thesis by (simp add: injectIgnitionByGuestfish_def)
next
  case (Inr disk)
  define c0 where "c0 = genCmd os True [] [''--listen'', ''-a'', disk]"
  show ?thesis
  proof (cases "\<exists>out. Start os (trace st0) c0 = Started out \<and>
                  length (Split out CHR '';'') = 2 \<and>
                  length (Split (Split out CHR '';'' ! 0) CHR ''='') = 2")
    case False
    then have "\<And>out. Start os (trace st0) c0 = Started out \<Longrightarrow>
                 length (Split out CHR '';'') \<noteq> 2 \<or>
                 length (Split (Split out CHR '';'' ! 0) CHR ''='') \<noteq> 2"
      by blast
    from inject_listen_fails [OF Inr c0_def this, where ignitionFile = ignitionFile]
    show ?thesis by (rule conjunct2 [THEN conjunct1])
  next
    case True
    then obtain out where ok: "Start os (trace st0) c0 = Started out"
      "length (Split out CHR '';'') = 2"
      "length (Split (Split out CHR '';'' ! 0) CHR ''='') = 2"
      by (elim exE conjE)
    from ok(1) have "Start os (trace st0) (genCmd os True [] [''--listen'', ''-a'', disk]) = Started out"
      by (simp add: c0_def)
    from inject_after_listen [OF Inr this ok(2,3) refl c0_def refl refl refl, where ignitionFile = ignitionFile]
    have "environ (fst (injectIgnitionByGuestfish os domainDef ignitionFile st0)) =
            environ (st0\<lparr>trace := trace st0 @ [c0]\<rparr>)"
      unfolding runsInOrder_def by (elim exE conjE)
    then show ?thesis by simp
  qed
qed

lemma ignition_go_handle_passed_to_each_command:
  assumes disk: "firstDiskFile domainDef = Inr disk"
    and started: "Start os (trace st0) (genCmd os True [] [''--listen'', ''-a'', disk]) = Started out"
    and semi: "length (Split out CHR '';'') = 2"
    and eq: "length (Split (Split out CHR '';'' ! 0) CHR ''='') = 2"
  shows "\<exists>new. trace (fst (injectIgnitionByGuestfish os domainDef ignitionFile st0)) =
                  trace st0 @ genCmd os True [] [''--listen'', ''-a'', disk] # new \<and>
               (\<forall>c \<in> set new. Env c = Some [Split out CHR '';'' ! 0])"
proof -
  define env where "env = [Split out CHR '';'' ! 0]"
  define c0 where "c0 = genCmd os True [] [''--listen'', ''-a'', disk]"
  define c1 where "c1 = genCmd os True env [''--remote'', ''--'', ''run'']"
  define c2 where "c2 = genCmd os True env [''--remote'', ''--'', ''findfs-label'', ''boot'']"
  define dev where "dev = TrimSpace (fst (CombinedOutput os (trace st0 @ [c0, c1]) c2))"
  define rest where "rest =
     [genCmd os True env [''--remote'', ''--'', ''mount'', dev, ''/''],
      genCmd os True env [''--remote'', ''--'', ''upload'', ignitionFile, ''/ignition/config.ign''],
      genCmd os True env [''--remote'', ''--'', ''umount-all''],
      genCmd os True env [''--remote'', ''--'', ''exit'']]"
  have "runsInOrder os (st0\<lparr>trace := trace st0 @ [c0]\<rparr>) (c1 # c2 # rest)
          (injectIgnitionByGuestfish os domainDef ignitionFile st0)"
    unfolding rest_def
    by (rule inject_after_listen [OF disk started semi eq env_def c0_def c1_def c2_def dev_def])
  then obtain new where tr: "trace (fst (injectIgnitionByGuestfish os domainDef ignitionFile st0)) =
       trace (st0\<lparr>trace := trace st0 @ [c0]\<rparr>) @ new"
    and pre: "prefix new (c1 # c2 # rest)"
    unfolding runsInOrder_def by (elim exE conjE)
  have "env \<noteq> []" by (simp add: env_def)
  then have "\<forall>c \<in> set (c1 # c2 # rest). Env c = Some env"
    by (simp add: c1_def c2_def rest_def Env_genCmd)
  moreover from pre have "set new \<subseteq> set (c1 # c2 # rest)"
    by (rule set_mono_prefix)
  ultimately have "\<forall>c \<in> set new. Env c = Some env"
    by (meson subsetD)
  with tr have "trace (fst (injectIgnitionByGuestfish os domainDef ignitionFile st0)) = trace st0 @ c0 # new \<and>
               (\<forall>c \<in> set new. Env c = Some env)"
    by simp
  then show ?thesis
    unfolding env_def c0_def by (intro exI)
qed

text \<open>A lookup that answers with a lone no-break space: ignition.go launches listen, run and
  the lookup, and returns the error of the missing boot filesystem without mounting.\<close>

lemma ignition_go_blank_lookup_example:
  "map Args (trace (fst (injectIgnitionByGuestfish
       (exampleOS ''GUESTFISH_PID=4513; export GUESTFISH_PID'' [CHR 0xC2, CHR 0xA0])
       exampleDomain ''/tmp/ign0'' freshProc))) =
     [[''sudo'', ''--preserve-env'', ''guestfish'', ''--listen'', ''-a'', ''/var/lib/img/m0''],
      [''sudo'', ''--preserve-env'', ''guestfish'', ''--remote'', ''--'', ''run''],
      [''sudo'', ''--preserve-env'', ''guestfish'', ''--remote'', ''--'', ''findfs-label'', ''boot'']] \<and>
   snd (injectIgnitionByGuestfish
       (exampleOS ''GUESTFISH_PID=4513; export GUESTFISH_PID'' [CHR 0xC2, CHR 0xA0])
       exampleDomain ''/tmp/ign0'' freshProc) =
     Some (Error ''failed to get the boot filesystem'')"
  by (simp add: injectIgnitionByGuestfish_def exampleOS_def exampleDomain_def freshProc_def
        firstDiskFile_def orReturn_def startCmd_def execCmd_def genCmd_def Command_def Let_def
        TrimSpace_examples)

subsection \<open>The same steps in the copy of part_000\<close>

lemmas part000_eval = injectIgnitionByGuestfish_part000_def exampleOS_def exampleDomain_def freshProc_def
      firstDiskFile_def orReturn_def startCmd_part000_def execCmd_part000_def Command_def Setenv_def Let_def

text \<open>
  C2. The copy of part_000 has no test for an empty lookup result and compares the text
  after the colon, which still carries its blank and its line feed, with \<^verbatim>\<open>ext4\<close>. With an
  empty \<^verbatim>\<open>list-filesystems\<close> output it launches \<^verbatim>\<open>mount\<close> with the empty device, goes on
  through the remaining steps and returns no error; with the output
  \<^verbatim>\<open>/dev/sda1: ext4\<close> of its own comment it also mounts the empty device.
\<close>

theorem C2_part000_mounts_empty_device:
  "map Args (trace (fst (injectIgnitionByGuestfish_part000
       (exampleOS ''GUESTFISH_PID=4513; export GUESTFISH_PID'' [])
       exampleDomain ''/tmp/ign0'' freshProc))) =
     [[''guestfish'', ''--listen'', ''-a'', ''/var/lib/img/m0''],
      [''guestfish'', ''--remote'', ''--'', ''run''],
      [''guestfish'', ''--remote'', ''--'', ''list-filesystems''],
      [''guestfish'', ''--remote'', ''--'', ''mount'', [], ''/''],
      [''guestfish'', ''--remote'', ''--'', ''upload'', ''/tmp/ign0'', ''/ignition/config.ign''],
      [''guestfish'', ''--remote'', ''--'', ''umount-all''],
      [''guestfish'', ''--remote'', ''--'', ''exit'']] \<and>
   snd (injectIgnitionByGuestfish_part000
       (exampleOS ''GUESTFISH_PID=4513; export GUESTFISH_PID'' [])
       exampleDomain ''/tmp/ign0'' freshProc) = None \<and>
   map Args (trace (fst (injectIgnitionByGuestfish_part000
       (exampleOS ''GUESTFISH_PID=4513; export GUESTFISH_PID'' (''/dev/sda1: ext4'' @ [CHR 0x0A]))
       exampleDomain ''/tmp/ign0'' freshProc))) ! 3 =
     [''guestfish'', ''--remote'', ''--'', ''mount'', [], ''/'']"
  by (simp add: part000_eval)

text \<open>
  C3. The copy of part_000 does not reject a handle whose first segment fails to split on
  \<^verbatim>\<open>=\<close> into two parts: with no \<^verbatim>\<open>=\<close> it panics right after the listen step, and with
  two of them it returns no error and launches all seven commands.
\<close>

theorem C3_part000_malformed_handle_not_rejected:
  "injectIgnitionByGuestfish_part000
       (exampleOS ''GUESTFISH_PID; export GUESTFISH_PID'' ''/dev/sda1'')
       exampleDomain ''/tmp/ign0'' freshProc =
     (\<lparr>trace = [\<lparr>Path = ''/usr/bin/guestfish'',
                  Args = [''guestfish'', ''--listen'', ''-a'', ''/var/lib/img/m0''],
                  Env = None\<rparr>],
       environ = Map.empty\<rparr>,
      Some (Panic ''index out of range [1] with length 1'')) \<and>
   snd (injectIgnitionByGuestfish_part000
       (exampleOS ''GUESTFISH_PID=45=13; export GUESTFISH_PID'' ''/dev/sda1'')
       exampleDomain ''/tmp/ign0'' freshProc) = None \<and>
   length (trace (fst (injectIgnitionByGuestfish_part000
       (exampleOS ''GUESTFISH_PID=45=13; export GUESTFISH_PID'' ''/dev/sda1'')
       exampleDomain ''/tmp/ign0'' freshProc))) = 7"
  by (simp add: part000_eval)

text \<open>
  C7. The copy of part_000 stores the handle in the environment of the provisioning process
  itself: after the session \<^verbatim>\<open>GUESTFISH_PID\<close> is set there, and no launched command was
  given an environment of its own.
\<close>

theorem C7_part000_sets_process_environment:
  "environ freshProc ''GUESTFISH_PID'' = None \<and>
   environ (fst (injectIgnitionByGuestfish_part000
       (exampleOS ''GUESTFISH_PID=4513; export GUESTFISH_PID'' ''/dev/sda1'')
       exampleDomain ''/tmp/ign0'' freshProc)) ''GUESTFISH_PID'' = Some ''4513'' \<and>
   map Env (trace (fst (injectIgnitionByGuestfish_part000
       (exampleOS ''GUESTFISH_PID=4513; export GUESTFISH_PID'' ''/dev/sda1'')
       exampleDomain ''/tmp/ign0'' freshProc))) = [None, None, None, None, None, None, None]"
  by (simp add: part000_eval)

section \<open>Resolving, uploading and the firmware channel\<close>

subsection \<open>The temporary file\<close>

lemma pickTemp_fresh: "pickTemp fs base ss = Some name \<Longrightarrow> fs name = None"
  by (induction ss) (auto split: if_splits)

lemma TempFile_Inr:
  assumes "TempFile w pat = Inr (tempFile, w1)"
  shows "files w tempFile = None"
    and "w1 = w\<lparr>files := (files w)(tempFile \<mapsto> \<lparr>node_bytes = [], node_openable = True, node_readable = True\<rparr>)\<rparr>"
  using assms by (auto simp: TempFile_def split: option.splits dest: pickTemp_fresh)

lemmas resolve_eval = createFile_def createAndUpload_def TempFile_def setBytes_def Remove_def
  invalidConfiguration_def exampleBackend_def exampleWorld_def Let_def

subsection \<open>When resolution succeeds\<close>

text \<open>
  C1, as stated, fails. The content \<^verbatim>\<open>/etc/secret.ign\<close> names an existing file that cannot
  be opened and is no JSON document: it is neither a readable file nor well-formed JSON, yet
  \<^verbatim>\<open>createFile\<close> does not answer with the error of an invalid configuration but with the
  error of the failed \<^verbatim>\<open>os.Open\<close>.
\<close>

theorem C1_counterexample:
  "files exampleWorld ''/etc/secret.ign'' =
     Some \<lparr>node_bytes = ''{}'', node_openable = False, node_readable = False\<rparr> \<and>
   \<not> UnmarshalObject exampleBackend ''/etc/secret.ign'' \<and>
   snd (createFile exampleBackend \<lparr>Name = ''ign'', PoolName = ''default'', Content = ''/etc/secret.ign''\<rparr>
          exampleWorld) =
     Inl (Error ''Error opening supplied Ignition file /etc/secret.ign'') \<and>
   snd (createFile exampleBackend \<lparr>Name = ''ign'', PoolName = ''default'', Content = ''/etc/secret.ign''\<rparr>
          exampleWorld) \<noteq>
     Inl (invalidConfiguration ''/etc/secret.ign'')"
  by (simp add: resolve_eval)

text \<open>
  C1, amended. Provided the temporary file can be created and written, \<^verbatim>\<open>createFile\<close>
  succeeds exactly when the content names a path that exists (once the temporary file is
  there) and can be opened and read, or names no existing path and is accepted by
  \<^verbatim>\<open>json.Unmarshal\<close>. A content that names no existing path and is not accepted fails with
  the invalid-configuration error; an existing path that cannot be opened fails with the
  error of opening it, and one that cannot be read with the error of copying it.
\<close>

theorem C1_resolution_outcomes:
  assumes tmp: "TempFile w (Name ign) = Inr (tempFile, w1)"
    and wr: "temp_write_ok w"
  shows "((\<exists>p. snd (createFile be ign w) = Inr p) \<longleftrightarrow>
            (case files w1 (Content ign) of
               None \<Rightarrow> UnmarshalObject be (Content ign)
             | Some f \<Rightarrow> node_openable f \<and> node_readable f)) \<and>
         (files w1 (Content ign) = None \<and> \<not> UnmarshalObject be (Content ign) \<longrightarrow>
            snd (createFile be ign w) = Inl (invalidConfiguration (Content ign))) \<and>
         (\<forall>f. files w1 (Content ign) = Some f \<and> \<not> node_openable f \<longrightarrow>
            snd (createFile be ign w) =
              Inl (Error (''Error opening supplied Ignition file '' @ Content ign))) \<and>
         (\<forall>f. files w1 (Content ign) = Some f \<and> node_openable f \<and> \<not> node_readable f \<longrightarrow>
            snd (createFile be ign w) =
              Inl (Error (''Error copying supplied Igition file to temporary file: '' @ Content ign)))"
proof -
  from TempFile_Inr(2) [OF tmp] wr have wr1: "temp_write_ok w1" by simp
  show ?thesis
    using tmp wr1 by (auto simp: createFile_def split: option.splits)
qed

theorem C1_resolution_outcomes_witness:
  "TempFile exampleWorld ''ign'' =
     Inr (''/tmp/ign123456'',
          exampleWorld\<lparr>files := (files exampleWorld)(''/tmp/ign123456'' \<mapsto>
             \<lparr>node_bytes = [], node_openable = True, node_readable = True\<rparr>)\<rparr>) \<and>
   temp_write_ok exampleWorld \<and>
   snd (createFile exampleBackend \<lparr>Name = ''ign'', PoolName = ''default'', Content = ''{}''\<rparr> exampleWorld) =
     Inr ''/tmp/ign123456'' \<and>
   snd (createFile exampleBackend \<lparr>Name = ''ign'', PoolName = ''default'', Content = ''/etc/worker.ign''\<rparr> exampleWorld) =
     Inr ''/tmp/ign123456'' \<and>
   snd (createFile exampleBackend \<lparr>Name = ''ign'', PoolName = ''default'', Content = ''not json''\<rparr> exampleWorld) =
     Inl (invalidConfiguration ''not json'') \<and>
   snd (createFile exampleBackend \<lparr>Name = ''ign'', PoolName = ''default'', Content = ''/etc/secret.ign''\<rparr> exampleWorld) =
     Inl (Error ''Error opening supplied Ignition file /etc/secret.ign'') \<and>
   snd (createFile exampleBackend \<lparr>Name = ''ign'', PoolName = ''default'', Content = ''/etc''\<rparr> exampleWorld) =
     Inl (Error ''Error copying supplied Igition file to temporary file: /etc'')"
proof -
  let ?w1 = "exampleWorld\<lparr>files := (files exampleWorld)(''/tmp/ign123456'' \<mapsto>
             \<lparr>node_bytes = [], node_openable = True, node_readable = True\<rparr>)\<rparr>"
  have tmp: "TempFile exampleWorld ''ign'' = Inr (''/tmp/ign123456'', ?w1)"
    by (simp add: TempFile_def exampleWorld_def)
  have wr: "temp_write_ok exampleWorld"
    by (simp add: exampleWorld_def)
  have tmp': "TempFile exampleWorld (Name \<lparr>Name = ''ign'', PoolName = ''default'', Content = c\<rparr>) =
                Inr (''/tmp/ign123456'', ?w1)" for c
    using tmp by simp
  note R = C1_resolution_outcomes [OF tmp' wr, where be = exampleBackend]
  have files: "files ?w1 ''{}'' = None" "files ?w1 ''not json'' = None"
    "files ?w1 ''/etc/worker.ign'' = Some \<lparr>node_bytes = ''{}'', node_openable = True, node_readable = True\<rparr>"
    "files ?w1 ''/etc/secret.ign'' = Some \<lparr>node_bytes = ''{}'', node_openable = False, node_readable = False\<rparr>"
    "files ?w1 ''/etc'' = Some \<lparr>node_bytes = [], node_openable = True, node_readable = False\<rparr>"
    by (simp_all add: exampleWorld_def)
  have json: "UnmarshalObject exampleBackend ''{}''" "\<not> UnmarshalObject exampleBackend ''not json''"
    by (simp_all add: exampleBackend_def)
  have a: "snd (createFile exampleBackend \<lparr>Name = ''ign'', PoolName = ''default'', Content = ''{}''\<rparr> exampleWorld) =
     Inr ''/tmp/ign123456''"
    by (simp add: resolve_eval)
  have b: "snd (createFile exampleBackend \<lparr>Name = ''ign'', PoolName = ''default'', Content = ''/etc/worker.ign''\<rparr> exampleWorld) =
     Inr ''/tmp/ign123456''"
    by (simp add: resolve_eval)
  have c: "snd (createFile exampleBackend \<lparr>Name = ''ign'', PoolName = ''default'', Content = ''not json''\<rparr> exampleWorld) =
     Inl (invalidConfiguration ''not json'')"
    using R [of "''not json''"] files json by simp
  have d: "snd (createFile exampleBackend \<lparr>Name = ''ign'', PoolName = ''default'', Content = ''/etc/secret.ign''\<rparr> exampleWorld) =
     Inl (Error ''Error opening supplied Ignition file /etc/secret.ign'')"
    using R [of "''/etc/secret.ign''"] files by simp
  have e: "snd (createFile exampleBackend \<lparr>Name = ''ign'', PoolName = ''default'', Content = ''/etc''\<rparr> exampleWorld) =
     Inl (Error ''Error copying supplied Igition file to temporary file: /etc'')"
    using R [of "''/etc''"] files by simp
  from tmp wr a b c d e show ?thesis by (intro conjI)
qed

subsection \<open>The bytes of the temporary file\<close>

text \<open>
  C8. When \<^verbatim>\<open>createFile\<close> succeeds and the content names a file that exists, the temporary
  file holds exactly the bytes of that file, which is left as it was; when the content names
  no existing path (it is inline JSON), the temporary file holds exactly the bytes of the
  content string.
\<close>

theorem C8_round_trip:
  assumes ok: "createFile be ign w = (w', Inr tempFile)"
  shows "(\<forall>f. files w (Content ign) = Some f \<longrightarrow>
            map_option node_bytes (files w' tempFile) = Some (node_bytes f) \<and>
            files w' (Content ign) = Some f) \<and>
         (files w (Content ign) = None \<and> Content ign \<noteq> tempFile \<longrightarrow>
            map_option node_bytes (files w' tempFile) = Some (Content ign))"
proof (cases "TempFile w (Name ign)")
  case (Inl e)
  with ok show ?thesis by (simp add: createFile_def)
next
  case (Inr p)
  obtain t w1 where p: "p = (t, w1)" by (cases p)
  note T = TempFile_Inr [OF Inr [unfolded p]]
  from ok Inr p T(2) have t: "t = tempFile"
    by (auto simp: createFile_def setBytes_def split: option.splits if_splits)
  show ?thesis
    using ok Inr p T
    by (auto simp: createFile_def setBytes_def t split: option.splits if_splits)
qed

theorem C8_round_trip_witness:
  "(createFile exampleBackend \<lparr>Name = ''ign'', PoolName = ''default'', Content = ''/etc/worker.ign''\<rparr> exampleWorld =
      (setBytes (exampleWorld\<lparr>files := (files exampleWorld)(''/tmp/ign123456'' \<mapsto>
              \<lparr>node_bytes = [], node_openable = True, node_readable = True\<rparr>)\<rparr>) ''/tmp/ign123456'' ''{}'',
       Inr ''/tmp/ign123456'') \<and>
    map_option node_bytes
      (files (setBytes (exampleWorld\<lparr>files := (files exampleWorld)(''/tmp/ign123456'' \<mapsto>
              \<lparr>node_bytes = [], node_openable = True, node_readable = True\<rparr>)\<rparr>) ''/tmp/ign123456'' ''{}'')
         ''/tmp/ign123456'') =
      Some (node_bytes \<lparr>node_bytes = ''{}'', node_openable = True, node_readable = True\<rparr>)) \<and>
   (createFile exampleBackend \<lparr>Name = ''ign'', PoolName = ''default'', Content = ''{}''\<rparr> exampleWorld =
      (setBytes (exampleWorld\<lparr>files := (files exampleWorld)(''/tmp/ign123456'' \<mapsto>
              \<lparr>node_bytes = [], node_openable = True, node_readable = True\<rparr>)\<rparr>) ''/tmp/ign123456'' ''{}'',
       Inr ''/tmp/ign123456'') \<and>
    files exampleWorld ''{}'' = None \<and>
    map_option node_bytes
      (files (setBytes (exampleWorld\<lparr>files := (files exampleWorld)(''/tmp/ign123456'' \<mapsto>
              \<lparr>node_bytes = [], node_openable = True, node_readable = True\<rparr>)\<rparr>) ''/tmp/ign123456'' ''{}'')
         ''/tmp/ign123456'') =
      Some ''{}'')"
proof -
  let ?w' = "setBytes (exampleWorld\<lparr>files := (files exampleWorld)(''/tmp/ign123456'' \<mapsto>
              \<lparr>node_bytes = [], node_openable = True, node_readable = True\<rparr>)\<rparr>) ''/tmp/ign123456'' ''{}''"
  have fromFile: "createFile exampleBackend
        \<lparr>Name = ''ign'', PoolName = ''default'', Content = ''/etc/worker.ign''\<rparr> exampleWorld =
      (?w', Inr ''/tmp/ign123456'')"
    by (simp add: createFile_def TempFile_def exampleWorld_def exampleBackend_def)
  have inline: "createFile exampleBackend
        \<lparr>Name = ''ign'', PoolName = ''default'', Content = ''{}''\<rparr> exampleWorld =
      (?w', Inr ''/tmp/ign123456'')"
    by (simp add: createFile_def TempFile_def exampleWorld_def exampleBackend_def)
  have f: "files exampleWorld ''/etc/worker.ign'' =
      Some \<lparr>node_bytes = ''{}'', node_openable = True, node_readable = True\<rparr>"
    and g: "files exampleWorld ''{}'' = None"
    by (simp_all add: exampleWorld_def)
  from C8_round_trip [OF fromFile] f
  have "map_option node_bytes (files ?w' ''/tmp/ign123456'') =
      Some (node_bytes \<lparr>node_bytes = ''{}'', node_openable = True, node_readable = True\<rparr>)"
    by simp
  moreover from C8_round_trip [OF inline] g
  have "map_option node_bytes (files ?w' ''/tmp/ign123456'') = Some ''{}''"
    by simp
  ultimately show ?thesis
    using fromFile inline g by (intro conjI)
qed

subsection \<open>Removal of the temporary file\<close>

text \<open>Once \<^verbatim>\<open>createFile\<close> has succeeded, \<^verbatim>\<open>createAndUpload\<close> leaves the file system as it
  found it, whatever the later steps do.\<close>

lemma createFile_temp_exists:
  assumes "createFile be ign w = (w', Inr tempFile)"
  shows "files w' tempFile \<noteq> None" and "files w tempFile = None"
    and "files w' = (files w)(tempFile := files w' tempFile)"
proof -
  obtain t w1 where T: "TempFile w (Name ign) = Inr (t, w1)"
    using assms by (cases "TempFile w (Name ign)") (auto simp: createFile_def)
  note F = TempFile_Inr [OF T]
  from assms T F(2) have t: "t = tempFile"
    by (auto simp: createFile_def setBytes_def split: option.splits if_splits)
  from assms T F(2) show "files w' tempFile \<noteq> None"
    by (auto simp: createFile_def setBytes_def t split: option.splits if_splits)
  from F(1) show "files w tempFile = None" by (simp add: t)
  from assms T F(2) show "files w' = (files w)(tempFile := files w' tempFile)"
    by (auto simp: createFile_def setBytes_def t split: option.splits if_splits)
qed

lemma createAndUpload_removes_temp_after_createFile:
  assumes "createFile be ign w = (w1, Inr tempFile)"
  shows "files (fst (createAndUpload be ign w)) = files w"
proof -
  note T = createFile_temp_exists [OF assms]
  have "files (fst (createAndUpload be ign w)) = (files w1)(tempFile := None)"
    using assms by (simp add: createAndUpload_def Remove_def Let_def split: sum.splits)
  also have "\<dots> = files w"
    using T(2,3) by (metis fun_upd_triv fun_upd_upd)
  finally show ?thesis .
qed

text \<open>
  C4. When \<^verbatim>\<open>createFile\<close> fails after it has made the temporary file, here for a content
  that is neither a file nor JSON, nothing removes that file: \<^verbatim>\<open>createFile\<close> only closes it,
  and \<^verbatim>\<open>createAndUpload\<close> returns before its deferred \<^verbatim>\<open>os.Remove\<close> is registered. The path
  \<^verbatim>\<open>/tmp/ign123456\<close>, absent before the call, is there after it.
\<close>

theorem C4_temp_file_left_behind:
  "files exampleWorld ''/tmp/ign123456'' = None \<and>
   snd (createAndUpload exampleBackend \<lparr>Name = ''ign'', PoolName = ''default'', Content = ''not json''\<rparr>
          exampleWorld) = Inl (invalidConfiguration ''not json'') \<and>
   files (fst (createAndUpload exampleBackend \<lparr>Name = ''ign'', PoolName = ''default'', Content = ''not json''\<rparr>
          exampleWorld)) ''/tmp/ign123456'' =
     Some \<lparr>node_bytes = [], node_openable = True, node_readable = True\<rparr>"
  by (simp add: resolve_eval)

subsection \<open>The command line of the domain\<close>

text \<open>
  C5, as stated, fails: a domain that already carries the argument \<^verbatim>\<open>-nographic\<close> has lost
  it after a successful \<^verbatim>\<open>setIgnition\<close>, whose two tokens are all that is left.
\<close>

theorem C5_counterexample:
  "setIgnition exampleBackend domainWithArgs \<lparr>poolName = ''default''\<rparr>
       \<lparr>UserDataSecret = ''worker-user-data''\<rparr> ''openshift-machine-api'' ''worker-0.ign'' exampleWorld =
     (exampleWorld,
      \<lparr>Devices = None,
       QEMUCommandline = Some
         \<lparr>QArgs = [\<lparr>Value = ''-fw_cfg''\<rparr>,
                   \<lparr>Value = ''name=opt/com.coreos/config,file=/var/lib/libvirt/images/worker-0.ign''\<rparr>],
          QEnvs = []\<rparr>\<rparr>,
      None) \<and>
   \<lparr>Value = ''-nographic''\<rparr> \<in> set (QArgs (the (QEMUCommandline domainWithArgs))) \<and>
   \<lparr>Value = ''-nographic''\<rparr> \<notin> set
     [\<lparr>Value = ''-fw_cfg''\<rparr>,
      \<lparr>Value = ''name=opt/com.coreos/config,file=/var/lib/libvirt/images/worker-0.ign''\<rparr>]"
  by (simp add: setIgnition_def newIgnitionDef_def domainWithArgs_def resolve_eval)

text \<open>
  C5, amended. After a successful upload yielding the identifier \<open>V\<close>, \<^verbatim>\<open>setIgnition\<close> sets
  the domain's QEMU command line to exactly two arguments, \<^verbatim>\<open>-fw_cfg\<close> and then
  \<^verbatim>\<open>name=opt/com.coreos/config,file=\<close> followed by \<open>V\<close>, with no environment entries,
  in place of whatever command line the domain had; the rest of the domain is unchanged.
\<close>

theorem C5_command_line_set_to_two_tokens:
  assumes name: "UserDataSecret ignition \<noteq> []"
    and secret: "secretGet be machineNamespace (UserDataSecret ignition) = Inr secretData"
    and userData: "secretData ''userData'' = Some content"
    and upload: "createAndUpload be \<lparr>Name = volumeName, PoolName = poolName client, Content = content\<rparr> w =
                   (w', Inr V)"
  shows "setIgnition be domainDef client ignition machineNamespace volumeName w =
           (w',
            domainDef\<lparr>QEMUCommandline := Some
              \<lparr>QArgs = [\<lparr>Value = ''-fw_cfg''\<rparr>, \<lparr>Value = ''name=opt/com.coreos/config,file='' @ V\<rparr>],
               QEnvs = []\<rparr>\<rparr>,
            None)"
  using assms by (simp add: setIgnition_def newIgnitionDef_def)

theorem C5_command_line_witness:
  "setIgnition exampleBackend exampleDomain \<lparr>poolName = ''default''\<rparr>
       \<lparr>UserDataSecret = ''worker-user-data''\<rparr> ''openshift-machine-api'' ''worker-0.ign'' exampleWorld =
     (exampleWorld,
      exampleDomain\<lparr>QEMUCommandline := Some
         \<lparr>QArgs = [\<lparr>Value = ''-fw_cfg''\<rparr>,
                   \<lparr>Value = ''name=opt/com.coreos/config,file='' @ ''/var/lib/libvirt/images/worker-0.ign''\<rparr>],
          QEnvs = []\<rparr>\<rparr>,
      None)"
proof -
  have up: "createAndUpload exampleBackend
          \<lparr>Name = ''worker-0.ign'', PoolName = poolName \<lparr>poolName = ''default''\<rparr>, Content = ''{}''\<rparr> exampleWorld =
        (exampleWorld, Inr ''/var/lib/libvirt/images/worker-0.ign'')"
    by (simp add: resolve_eval)
  show ?thesis
    by (rule C5_command_line_set_to_two_tokens [OF _ _ _ up, where secretData = "[''userData'' \<mapsto> ''{}'']"])
       (simp_all add: exampleBackend_def)
qed

end
